theory Spec2Isabelle
  imports
    Main
    "HOL-Library.Char_ord"
    "HOL-Library.List_Lexorder"
    "HOL-Library.Product_Lexorder"
    "HOL-Library.Option_ord"
    "HOL-Library.Multiset"
begin

section \<open>JavaScript values, strings and errors\<close>

text \<open>
  The TypeScript sources pass \<open>any\<close>-typed values through to the driver untouched; only
  their identity matters here. Strings are lists of code units; the model covers the
  code units 0..255 (Latin-1), which contain every character the keyword gate and the
  URI parser inspect.
\<close>

datatype js_value = JUndefined | JNull | JBool bool | JNum int | JStr string

text \<open>
  \<open>Record<string, any>\<close>: the own properties of an object, in property order, each key
  once. (JavaScript lists integer-like keys first; a list given here is taken to be in
  the order the object has.)
\<close>

type_synonym js_object = "(string \<times> js_value) list"

text \<open>
  A thrown value. \<open>Error m\<close> is any instance of \<open>Error\<close> (also \<open>TypeError\<close> and the
  driver's error classes) with message \<open>m\<close>; \<open>Thrown v\<close> is any other thrown value.
\<close>

datatype js_error = Error string | Thrown js_value

text \<open>\<open>error instanceof Error ? error.message : 'Unknown error occurred'\<close>\<close>

fun error_message :: "js_error \<Rightarrow> string" where
  "error_message (Error m) = m"
| "error_message (Thrown v) = ''Unknown error occurred''"

text \<open>The messages of the engine's \<open>TypeError\<close>s for a property read on \<open>undefined\<close>.\<close>

definition type_error_read :: "string \<Rightarrow> js_error" where
  "type_error_read prop =
     Error (''Cannot read properties of undefined (reading '' @ [CHR 0x27] @ prop @ [CHR 0x27] @ '')'')"

text \<open>
  \<open>const { database, ... } = args\<close> with \<open>args\<close> undefined; \<open>database\<close> is the first
  property destructured in every tool method.
\<close>

definition type_error_destructure :: js_error where
  "type_error_destructure =
     Error (''Cannot destructure property '' @ [CHR 0x27] @ ''database'' @ [CHR 0x27] @ '' of ''
            @ [CHR 0x27] @ ''args'' @ [CHR 0x27] @ '' as it is undefined.'')"

text \<open>\<open>Object.keys(undefined)\<close>\<close>

definition type_error_object_keys :: js_error where
  "type_error_object_keys = Error ''Cannot convert undefined or null to object''"

subsection \<open>String operations\<close>

text \<open>\<open>String.prototype.trim\<close> strips WhiteSpace and LineTerminator code units.\<close>

definition isWhiteSpace :: "char \<Rightarrow> bool" where
  "isWhiteSpace c = ((of_char c :: nat) \<in> {9, 10, 11, 12, 13, 32, 160})"

definition trim :: "string \<Rightarrow> string" where
  "trim s = rev (dropWhile isWhiteSpace (rev (dropWhile isWhiteSpace s)))"

definition toLowerCaseChar :: "char \<Rightarrow> char" where
  "toLowerCaseChar c =
     (let n = (of_char c :: nat)
      in if (65 \<le> n \<and> n \<le> 90) \<or> (192 \<le> n \<and> n \<le> 222 \<and> n \<noteq> 215)
         then char_of (n + 32) else c)"

definition toLowerCase :: "string \<Rightarrow> string" where
  "toLowerCase s = map toLowerCaseChar s"

definition startsWith :: "string \<Rightarrow> string \<Rightarrow> bool" where
  "startsWith s p = (take (length p) s = p)"

text \<open>\<open>s.includes(sub)\<close>\<close>

fun includes_str :: "string \<Rightarrow> string \<Rightarrow> bool" where
  "includes_str [] sub = (sub = [])"
| "includes_str (c # cs) sub = (startsWith (c # cs) sub \<or> includes_str cs sub)"

text \<open>\<open>s.split(sep)\<close> for a one-character separator; \<open>''''.split('/')\<close> is \<open>['''']\<close>.\<close>

fun split :: "char \<Rightarrow> string \<Rightarrow> string list" where
  "split sep [] = [[]]"
| "split sep (c # cs) =
     (if c = sep then [] # split sep cs
      else (case split sep cs of [] \<Rightarrow> [[c]] | p # ps \<Rightarrow> (c # p) # ps))"

text \<open>\<open>xs[i]\<close>: \<open>undefined\<close> past the end.\<close>

definition at_index :: "'a list \<Rightarrow> nat \<Rightarrow> 'a option" where
  "at_index xs i = (if i < length xs then Some (xs ! i) else None)"

text \<open>A template literal prints \<open>undefined\<close> for a missing value.\<close>

fun interpolate :: "string option \<Rightarrow> string" where
  "interpolate None = ''undefined''"
| "interpolate (Some s) = s"

text \<open>\<open>xs.join(', ')\<close>\<close>

fun join :: "string \<Rightarrow> string list \<Rightarrow> string" where
  "join sep [] = []"
| "join sep [x] = x"
| "join sep (x # y # ys) = x @ sep @ join sep (y # ys)"

section \<open>The database server as seen through the driver\<close>

text \<open>
  Rows of a record set are objects keyed by the column aliases of the query.
\<close>

type_synonym row = "(string \<times> js_value) list"

text \<open>
  The driver's result object: \<open>recordset\<close> is \<open>undefined\<close> for a statement that returns
  no rows; \<open>rowsAffected\<close> is the count the server reports per statement.
\<close>

record query_result =
  recordset :: "row list option"
  rowsAffected :: "nat list"

text \<open>
  The catalog relations that the fixed queries of the source read, each with those of its
  columns that the queries read. Comparison and ordering of strings are those of a binary collation:
  \<open>=\<close> is equality of the texts, \<open>ORDER BY\<close> is the order of the code units, and rows with
  equal keys keep the order of the relation.
\<close>

record info_table =
  tbl_schema :: string
  tbl_name :: string
  tbl_type :: string

record info_column =
  col_table_schema :: string
  col_table_name :: string
  col_name :: string
  col_ordinal_position :: nat
  col_data_type :: string
  col_is_nullable :: string
  col_default :: "string option"
  col_character_maximum_length :: "int option"

record info_routine =
  rtn_schema :: string
  rtn_name :: string
  rtn_type :: string

text \<open>
  A row of \<open>sys.triggers\<close>: \<open>name\<close>, the table that \<open>OBJECT_NAME(parent_id)\<close> resolves to
  (\<open>NULL\<close> when unresolved) and \<open>is_disabled\<close>. The view has no column \<open>schema_id\<close>.
\<close>

record sys_trigger =
  trg_name :: string
  trg_table_name :: "string option"
  trg_is_disabled :: nat

record info_view =
  vw_schema :: string
  vw_name :: string

record catalog =
  TABLES :: "info_table list"
  COLUMNS :: "info_column list"
  ROUTINES :: "info_routine list"
  triggers :: "sys_trigger list"
  VIEWS :: "info_view list"
  definitions :: "(string \<times> string) list"

text \<open>
  The statements sent to the server. Each fixed SQL text of the source is a constructor,
  named after the method that holds it; what the server answers to it is \<open>answer\<close> below.
  Every text assembled at run time is \<open>Q_Text\<close> and is answered by \<open>run_text\<close>.
\<close>

datatype statement =
    Q_getTables
  | Q_getTableSchema
  | Q_getStoredProcedures
  | Q_getStoredProcedureDefinition
  | Q_getTriggers
  | Q_getTriggerDefinition
  | Q_getViews
  | Q_getViewDefinition
  | Q_Text string

text \<open>
  The server and driver at the time of a call: whether \<open>pool.connect()\<close> fails, the error
  with which the driver refuses a request on a pool that is not connected, whether
  requests fail (\<open>fault\<close>: time-outs, permissions), the error with which the server
  refuses a statement that names a column its relation does not have, the catalog, and
  the answers to run-time SQL text and to procedure calls.
\<close>

record server =
  connect_failure :: "js_error option"
  not_open_error :: js_error
  fault :: "js_error option"
  invalid_column :: "string \<Rightarrow> js_error"
  cat :: catalog
  run_text :: "string \<Rightarrow> (string \<times> js_value) list \<Rightarrow> js_error + query_result"
  run_procedure :: "string \<Rightarrow> (string \<times> js_value) list \<Rightarrow> js_error + query_result"

fun sql_string :: "string option \<Rightarrow> js_value" where
  "sql_string None = JNull"
| "sql_string (Some s) = JStr s"

fun sql_int :: "int option \<Rightarrow> js_value" where
  "sql_int None = JNull"
| "sql_int (Some n) = JNum n"

text \<open>The value bound to a parameter name: the last \<open>request.input\<close> for it.\<close>

definition param :: "(string \<times> js_value) list \<Rightarrow> string \<Rightarrow> js_value option" where
  "param inputs k = map_of (rev inputs) k"

text \<open>
  \<open>SELECT TABLE_SCHEMA as table_schema, TABLE_NAME as table_name
  FROM INFORMATION_SCHEMA.TABLES WHERE TABLE_TYPE = 'BASE TABLE'
  ORDER BY TABLE_SCHEMA, TABLE_NAME\<close>
\<close>

definition table_row :: "info_table \<Rightarrow> row" where
  "table_row t = [(''table_schema'', JStr (tbl_schema t)), (''table_name'', JStr (tbl_name t))]"

definition select_tables :: "catalog \<Rightarrow> row list" where
  "select_tables c =
     map table_row
       (sort_key (\<lambda>t. (tbl_schema t, tbl_name t))
          (filter (\<lambda>t. tbl_type t = ''BASE TABLE'') (TABLES c)))"

text \<open>
  \<open>SELECT COLUMN_NAME as column_name, DATA_TYPE as data_type, IS_NULLABLE as is_nullable,
  COLUMN_DEFAULT as column_default, CHARACTER_MAXIMUM_LENGTH as character_maximum_length
  FROM INFORMATION_SCHEMA.COLUMNS
  WHERE TABLE_NAME = @tableName AND TABLE_SCHEMA = @schema
  ORDER BY ORDINAL_POSITION\<close>
\<close>

definition column_row :: "info_column \<Rightarrow> row" where
  "column_row c =
     [(''column_name'', JStr (col_name c)),
      (''data_type'', JStr (col_data_type c)),
      (''is_nullable'', JStr (col_is_nullable c)),
      (''column_default'', sql_string (col_default c)),
      (''character_maximum_length'', sql_int (col_character_maximum_length c))]"

definition select_columns :: "catalog \<Rightarrow> (string \<times> js_value) list \<Rightarrow> row list" where
  "select_columns c inputs =
     map column_row
       (sort_key col_ordinal_position
          (filter (\<lambda>x. Some (JStr (col_table_name x)) = param inputs ''tableName''
                      \<and> Some (JStr (col_table_schema x)) = param inputs ''schema'')
             (COLUMNS c)))"

text \<open>
  \<open>SELECT ROUTINE_SCHEMA as routine_schema, ROUTINE_NAME as routine_name
  FROM INFORMATION_SCHEMA.ROUTINES WHERE ROUTINE_TYPE = 'PROCEDURE'
  ORDER BY ROUTINE_SCHEMA, ROUTINE_NAME\<close>
\<close>

definition routine_row :: "info_routine \<Rightarrow> row" where
  "routine_row r =
     [(''routine_schema'', JStr (rtn_schema r)), (''routine_name'', JStr (rtn_name r))]"

definition select_procedures :: "catalog \<Rightarrow> row list" where
  "select_procedures c =
     map routine_row
       (sort_key (\<lambda>r. (rtn_schema r, rtn_name r))
          (filter (\<lambda>r. rtn_type r = ''PROCEDURE'') (ROUTINES c)))"

text \<open>
  \<open>SELECT TABLE_SCHEMA as table_schema, TABLE_NAME as table_name
  FROM INFORMATION_SCHEMA.VIEWS ORDER BY TABLE_SCHEMA, TABLE_NAME\<close>
\<close>

definition view_row :: "info_view \<Rightarrow> row" where
  "view_row v = [(''table_schema'', JStr (vw_schema v)), (''table_name'', JStr (vw_name v))]"

definition select_views :: "catalog \<Rightarrow> row list" where
  "select_views c = map view_row (sort_key (\<lambda>v. (vw_schema v, vw_name v)) (VIEWS c))"

text \<open>
  \<open>SELECT OBJECT_DEFINITION(OBJECT_ID(@schema + '.' + @name)) as definition\<close> and
  \<open>SELECT OBJECT_DEFINITION(OBJECT_ID(@triggerName)) as definition\<close>: always one row,
  \<open>NULL\<close> when the name does not resolve.
\<close>

definition definition_row :: "catalog \<Rightarrow> js_value option \<Rightarrow> row" where
  "definition_row c object_name =
     [(''definition'',
        (case object_name of
           Some (JStr n) \<Rightarrow> sql_string (map_of (definitions c) n)
         | _ \<Rightarrow> JNull))]"

definition qualified_name :: "js_value option \<Rightarrow> js_value option \<Rightarrow> js_value option" where
  "qualified_name s n =
     (case (s, n) of
        (Some (JStr a), Some (JStr b)) \<Rightarrow> Some (JStr (a @ ''.'' @ b))
      | _ \<Rightarrow> Some JNull)"

text \<open>The result object for a record set.\<close>

definition rows_result :: "row list \<Rightarrow> js_error + query_result" where
  "rows_result rows = Inr \<lparr>recordset = Some rows, rowsAffected = [length rows]\<rparr>"

text \<open>
  What the server answers to a statement. The statement of \<open>getTriggers\<close> is
  \<open>SELECT t.name as trigger_name, OBJECT_NAME(t.parent_id) as table_name,
  SCHEMA_NAME(t.schema_id) as trigger_schema
  FROM sys.triggers t WHERE t.is_disabled = 0 ORDER BY t.name\<close>.
  It names \<open>t.schema_id\<close>, which \<open>sys.triggers\<close> does not have, so the server refuses it
  whatever the relation holds. (The repository's \<open>CURSOR_QUICK_REFERENCE.md\<close> records the
  SQL error on triggers and its repair, \<open>OBJECT_SCHEMA_NAME(t.object_id)\<close> in place of
  \<open>t.schema_id\<close>, made in the Python server's \<open>master_db.py\<close> and \<open>datamgmt_db.py\<close>.)
\<close>

fun answer :: "server \<Rightarrow> statement \<Rightarrow> (string \<times> js_value) list \<Rightarrow> js_error + query_result" where
  "answer srv Q_getTables inputs = rows_result (select_tables (cat srv))"
| "answer srv Q_getTableSchema inputs = rows_result (select_columns (cat srv) inputs)"
| "answer srv Q_getStoredProcedures inputs = rows_result (select_procedures (cat srv))"
| "answer srv Q_getStoredProcedureDefinition inputs =
     rows_result
       [definition_row (cat srv)
          (qualified_name (param inputs ''schema'') (param inputs ''procedureName''))]"
| "answer srv Q_getTriggers inputs = Inl (invalid_column srv ''schema_id'')"
| "answer srv Q_getTriggerDefinition inputs =
     rows_result [definition_row (cat srv) (param inputs ''triggerName'')]"
| "answer srv Q_getViews inputs = rows_result (select_views (cat srv))"
| "answer srv Q_getViewDefinition inputs =
     rows_result
       [definition_row (cat srv) (qualified_name (param inputs ''schema'') (param inputs ''viewName''))]"
| "answer srv (Q_Text text) inputs = run_text srv text inputs"

definition server_query ::
  "server \<Rightarrow> statement \<Rightarrow> (string \<times> js_value) list \<Rightarrow> js_error + query_result" where
  "server_query srv stmt inputs =
     (case fault srv of
        Some e \<Rightarrow> Inl e
      | None \<Rightarrow> answer srv stmt inputs)"

section \<open>The connection manager (\<open>DataManagementDatabase\<close>)\<close>

text \<open>
  A \<open>sql.ConnectionPool\<close> object: \<open>handle\<close> numbers the constructor calls of its owner,
  \<open>connected\<close> is the driver's flag, set once \<open>pool.connect()\<close> has succeeded. The events
  are the calls made on the driver: \<open>pool.connect()\<close>, \<open>pool.close()\<close>, \<open>request.query\<close> and
  \<open>request.execute\<close>, each with the handle of the pool it is made on.
\<close>

record connection_pool =
  handle :: nat
  connected :: bool

datatype event =
    Ev_connect nat
  | Ev_close nat
  | Ev_query nat statement "(string \<times> js_value) list"
  | Ev_execute nat string "(string \<times> js_value) list"

text \<open>
  The object's one field \<open>pool\<close>, and two observers of what it did: the number of
  \<open>new sql.ConnectionPool\<close> calls and the driver calls in order.
\<close>

record database =
  pool :: "connection_pool option"
  pools_created :: nat
  calls :: "event list"

definition new_database :: database where
  "new_database = \<lparr>pool = None, pools_created = 0, calls = []\<rparr>"

text \<open>
  \<open>if (!this.pool) { this.pool = new sql.ConnectionPool(cfg); await this.pool.connect(); }\<close>
  The field is assigned before \<open>connect()\<close> is awaited.
\<close>

definition connect :: "server \<Rightarrow> database \<Rightarrow> (js_error + unit) \<times> database" where
  "connect srv db =
     (case pool db of
        Some p \<Rightarrow> (Inr (), db)
      | None \<Rightarrow>
          (let h = pools_created db;
               db1 = db\<lparr>pool := Some \<lparr>handle = h, connected = False\<rparr>,
                        pools_created := h + 1,
                        calls := calls db @ [Ev_connect h]\<rparr>
           in (case connect_failure srv of
                 Some e \<Rightarrow> (Inl e, db1)
               | None \<Rightarrow> (Inr (), db1\<lparr>pool := Some \<lparr>handle = h, connected = True\<rparr>\<rparr>))))"

text \<open>
  \<open>if (this.pool) { await this.pool.close(); this.pool = null; }\<close>, with a \<open>close()\<close> that
  does not throw.
\<close>

definition disconnect :: "database \<Rightarrow> (js_error + unit) \<times> database" where
  "disconnect db =
     (case pool db of
        Some p \<Rightarrow> (Inr (), db\<lparr>pool := None, calls := calls db @ [Ev_close (handle p)]\<rparr>)
      | None \<Rightarrow> (Inr (), db))"

text \<open>
  \<open>Object.entries(parameters).forEach(([key, value]) => request.input(key, value))\<close>,
  skipped when \<open>parameters\<close> is \<open>undefined\<close>.
\<close>

fun request_inputs :: "js_object option \<Rightarrow> (string \<times> js_value) list" where
  "request_inputs None = []"
| "request_inputs (Some ps) = ps"

text \<open>
  \<open>await this.connect(); if (!this.pool) throw ...; const request = this.pool.request(); ...
  const result = await request.query(query); return result.recordset;\<close>
\<close>

definition executeQuery ::
  "statement \<Rightarrow> js_object option \<Rightarrow> server \<Rightarrow> database \<Rightarrow> (js_error + row list option) \<times> database" where
  "executeQuery query parameters srv db =
     (case connect srv db of
        (Inl e, db1) \<Rightarrow> (Inl e, db1)
      | (Inr u, db1) \<Rightarrow>
          (case pool db1 of
             None \<Rightarrow> (Inl (Error ''Database connection not established''), db1)
           | Some p \<Rightarrow>
               (let inputs = request_inputs parameters;
                    db2 = db1\<lparr>calls := calls db1 @ [Ev_query (handle p) query inputs]\<rparr>
                in if \<not> connected p then (Inl (not_open_error srv), db2)
                   else (case server_query srv query inputs of
                           Inl e \<Rightarrow> (Inl e, db2)
                         | Inr res \<Rightarrow> (Inr (recordset res), db2)))))"

text \<open>\<open>request.execute(procedureName)\<close> after the same preamble.\<close>

definition executeProcedure ::
  "string \<Rightarrow> js_object option \<Rightarrow> server \<Rightarrow> database \<Rightarrow> (js_error + row list option) \<times> database" where
  "executeProcedure procedureName parameters srv db =
     (case connect srv db of
        (Inl e, db1) \<Rightarrow> (Inl e, db1)
      | (Inr u, db1) \<Rightarrow>
          (case pool db1 of
             None \<Rightarrow> (Inl (Error ''Database connection not established''), db1)
           | Some p \<Rightarrow>
               (let inputs = request_inputs parameters;
                    db2 = db1\<lparr>calls := calls db1 @ [Ev_execute (handle p) procedureName inputs]\<rparr>
                in if \<not> connected p then (Inl (not_open_error srv), db2)
                   else (case fault srv of
                           Some e \<Rightarrow> (Inl e, db2)
                         | None \<Rightarrow>
                             (case run_procedure srv procedureName inputs of
                                Inl e \<Rightarrow> (Inl e, db2)
                              | Inr res \<Rightarrow> (Inr (recordset res), db2))))))"

subsection \<open>Schema introspection\<close>

text \<open>A default parameter value (\<open>schema: string = 'dbo'\<close>) replaces \<open>undefined\<close>.\<close>

fun default_to :: "'a \<Rightarrow> 'a option \<Rightarrow> 'a" where
  "default_to d None = d"
| "default_to d (Some x) = x"

fun js_string :: "string option \<Rightarrow> js_value" where
  "js_string None = JUndefined"
| "js_string (Some s) = JStr s"

definition getTables :: "server \<Rightarrow> database \<Rightarrow> (js_error + row list option) \<times> database" where
  "getTables srv db = executeQuery Q_getTables None srv db"

definition getTableSchema ::
  "string option \<Rightarrow> string option \<Rightarrow> server \<Rightarrow> database
     \<Rightarrow> (js_error + row list option) \<times> database" where
  "getTableSchema tableName schema srv db =
     executeQuery Q_getTableSchema
       (Some [(''tableName'', js_string tableName), (''schema'', JStr (default_to ''dbo'' schema))])
       srv db"

definition getStoredProcedures ::
  "server \<Rightarrow> database \<Rightarrow> (js_error + row list option) \<times> database" where
  "getStoredProcedures srv db = executeQuery Q_getStoredProcedures None srv db"

definition getTriggers :: "server \<Rightarrow> database \<Rightarrow> (js_error + row list option) \<times> database" where
  "getTriggers srv db = executeQuery Q_getTriggers None srv db"

definition getViews :: "server \<Rightarrow> database \<Rightarrow> (js_error + row list option) \<times> database" where
  "getViews srv db = executeQuery Q_getViews None srv db"

text \<open>\<open>result[0]?.definition || ''\<close> on rows typed \<open>{ definition: string }\<close>\<close>

definition first_definition :: "row list option \<Rightarrow> js_error + string" where
  "first_definition result =
     (case result of
        None \<Rightarrow> Inl (type_error_read ''0'')
      | Some [] \<Rightarrow> Inr []
      | Some (r # rs) \<Rightarrow> (case map_of r ''definition'' of Some (JStr s) \<Rightarrow> Inr s | _ \<Rightarrow> Inr []))"

definition returning_definition ::
  "(js_error + row list option) \<times> database \<Rightarrow> (js_error + string) \<times> database" where
  "returning_definition x =
     (case x of (Inl e, db1) \<Rightarrow> (Inl e, db1) | (Inr result, db1) \<Rightarrow> (first_definition result, db1))"

definition getStoredProcedureDefinition ::
  "string option \<Rightarrow> string option \<Rightarrow> server \<Rightarrow> database \<Rightarrow> (js_error + string) \<times> database" where
  "getStoredProcedureDefinition procedureName schema srv db =
     returning_definition
       (executeQuery Q_getStoredProcedureDefinition
          (Some [(''schema'', JStr (default_to ''dbo'' schema)),
                 (''procedureName'', js_string procedureName)])
          srv db)"

definition getTriggerDefinition ::
  "string option \<Rightarrow> server \<Rightarrow> database \<Rightarrow> (js_error + string) \<times> database" where
  "getTriggerDefinition triggerName srv db =
     returning_definition
       (executeQuery Q_getTriggerDefinition (Some [(''triggerName'', js_string triggerName)]) srv db)"

definition getViewDefinition ::
  "string option \<Rightarrow> string option \<Rightarrow> server \<Rightarrow> database \<Rightarrow> (js_error + string) \<times> database" where
  "getViewDefinition viewName schema srv db =
     returning_definition
       (executeQuery Q_getViewDefinition
          (Some [(''schema'', JStr (default_to ''dbo'' schema)), (''viewName'', js_string viewName)])
          srv db)"

subsection \<open>CRUD operations\<close>

text \<open>
  The SQL templates are written on one line: each run of line breaks and indentation of
  the source's template literal is one space, and the text is not padded at its ends.
\<close>

text \<open>\<open>config.maxRows\<close>: \<open>parseInt(process.env.MAX_ROWS || '1000')\<close> with the variable unset.\<close>

definition maxRows :: int where
  "maxRows = 1000"

definition getTableData ::
  "string option \<Rightarrow> string option \<Rightarrow> int option \<Rightarrow> int option \<Rightarrow> server \<Rightarrow> database
     \<Rightarrow> (js_error + row list option) \<times> database" where
  "getTableData tableName schema limit offset srv db =
     executeQuery
       (Q_Text (''SELECT * FROM ['' @ default_to ''dbo'' schema @ ''].['' @ interpolate tableName
                @ ''] ORDER BY (SELECT NULL) OFFSET @offset ROWS FETCH NEXT @limit ROWS ONLY''))
       (Some [(''limit'', JNum (default_to maxRows limit)), (''offset'', JNum (default_to 0 offset))])
       srv db"

text \<open>Assigning a property: an existing key keeps its place, a new key goes last.\<close>

fun obj_set :: "string \<Rightarrow> js_value \<Rightarrow> js_object \<Rightarrow> js_object" where
  "obj_set k v [] = [(k, v)]"
| "obj_set k v ((k', v') # ps) = (if k' = k then (k, v) # ps else (k', v') # obj_set k v ps)"

text \<open>\<open>{ ...a, ...b }\<close> copies into a fresh object; so does \<open>Object.fromEntries\<close>.\<close>

definition assign_all :: "js_object \<Rightarrow> js_object \<Rightarrow> js_object" where
  "assign_all target source = fold (\<lambda>(k, v). obj_set k v) source target"

definition spread :: "js_object \<Rightarrow> js_object \<Rightarrow> js_object" where
  "spread a b = assign_all (assign_all [] a) b"

definition fromEntries :: "(string \<times> js_value) list \<Rightarrow> js_object" where
  "fromEntries entries = assign_all [] entries"

text \<open>The mutations ignore the driver's result and return the literal 1.\<close>

definition returning_one ::
  "(js_error + row list option) \<times> database \<Rightarrow> (js_error + nat) \<times> database" where
  "returning_one x = (case x of (Inl e, db1) \<Rightarrow> (Inl e, db1) | (Inr result, db1) \<Rightarrow> (Inr 1, db1))"

definition insert_query :: "string option \<Rightarrow> string \<Rightarrow> js_object \<Rightarrow> string" where
  "insert_query tableName schema d =
     ''INSERT INTO ['' @ schema @ ''].['' @ interpolate tableName @ ''] (''
       @ join '', '' (map fst d) @ '') VALUES (''
       @ join '', '' (map (\<lambda>key. ''@'' @ key) (map fst d)) @ '')''"

definition insertData ::
  "string option \<Rightarrow> string option \<Rightarrow> js_object option \<Rightarrow> server \<Rightarrow> database
     \<Rightarrow> (js_error + nat) \<times> database" where
  "insertData tableName schema data srv db =
     (case data of
        None \<Rightarrow> (Inl type_error_object_keys, db)
      | Some d \<Rightarrow>
          returning_one
            (executeQuery (Q_Text (insert_query tableName (default_to ''dbo'' schema) d))
               (Some (fromEntries d)) srv db))"

definition update_query :: "string option \<Rightarrow> string \<Rightarrow> js_object \<Rightarrow> string option \<Rightarrow> string" where
  "update_query tableName schema d whereClause =
     ''UPDATE ['' @ schema @ ''].['' @ interpolate tableName @ ''] SET ''
       @ join '', '' (map (\<lambda>key. ''['' @ key @ ''] = @'' @ key) (map fst d))
       @ '' WHERE '' @ interpolate whereClause"

definition updateData ::
  "string option \<Rightarrow> string option \<Rightarrow> js_object option \<Rightarrow> string option \<Rightarrow> js_object option
     \<Rightarrow> server \<Rightarrow> database \<Rightarrow> (js_error + nat) \<times> database" where
  "updateData tableName schema data whereClause whereParameters srv db =
     (case data of
        None \<Rightarrow> (Inl type_error_object_keys, db)
      | Some d \<Rightarrow>
          returning_one
            (executeQuery (Q_Text (update_query tableName (default_to ''dbo'' schema) d whereClause))
               (Some (spread d (default_to [] whereParameters))) srv db))"

definition delete_query :: "string option \<Rightarrow> string \<Rightarrow> string option \<Rightarrow> string" where
  "delete_query tableName schema whereClause =
     ''DELETE FROM ['' @ schema @ ''].['' @ interpolate tableName @ ''] WHERE ''
       @ interpolate whereClause"

definition deleteData ::
  "string option \<Rightarrow> string option \<Rightarrow> string option \<Rightarrow> js_object option
     \<Rightarrow> server \<Rightarrow> database \<Rightarrow> (js_error + nat) \<times> database" where
  "deleteData tableName schema whereClause whereParameters srv db =
     returning_one
       (executeQuery (Q_Text (delete_query tableName (default_to ''dbo'' schema) whereClause))
          (Some (default_to [] whereParameters)) srv db)"

section \<open>The two targets\<close>

text \<open>
  Modelled from the spec: the class \<open>MasterDatabase\<close> (\<open>database/master-db.ts\<close> is not among
  the sources). The specification gives the two targets one operation surface, with one
  pooled connection each ("Two logical database targets ... are addressed through a
  uniform operation surface"; "owns one pooled connection per logical database target"),
  so the master object is a value of the type \<open>database\<close> and runs the methods of
  \<open>DataManagementDatabase\<close> above, against its own server.
\<close>

record world =
  masterDb :: database
  dataMgmtDb :: database

record environment =
  master_server :: server
  datamgmt_server :: server

definition new_world :: world where
  "new_world = \<lparr>masterDb = new_database, dataMgmtDb = new_database\<rparr>"

text \<open>
  \<open>const db = database === 'master' ? this.masterDb : this.dataMgmtDb\<close>, followed by a
  call of a method of \<open>db\<close>.
\<close>

definition on_db ::
  "string option \<Rightarrow> (server \<Rightarrow> database \<Rightarrow> 'a \<times> database) \<Rightarrow> environment \<Rightarrow> world \<Rightarrow> 'a \<times> world" where
  "on_db target method env w =
     (if target = Some ''master''
      then (case method (master_server env) (masterDb w) of (r, d) \<Rightarrow> (r, w\<lparr>masterDb := d\<rparr>))
      else (case method (datamgmt_server env) (dataMgmtDb w) of (r, d) \<Rightarrow> (r, w\<lparr>dataMgmtDb := d\<rparr>)))"

section \<open>Tools\<close>

text \<open>
  The \<open>arguments\<close> object of a tool call, with the properties the tools read; a property
  that is absent is \<open>undefined\<close>.
\<close>

record tool_args =
  arg_database :: "string option"
  arg_query :: "string option"
  arg_parameters :: "js_object option"
  arg_tableName :: "string option"
  arg_schema :: "string option"
  arg_data :: "js_object option"
  arg_whereClause :: "string option"
  arg_whereParameters :: "js_object option"
  arg_objectType :: "string option"

type_synonym schema_object = "(string \<times> row list option) list"

datatype tool_response =
    Failure string
      \<comment> \<open>\<open>{ success: false, error }\<close>\<close>
  | Query_ok "row list" nat
      \<comment> \<open>\<open>{ success: true, data, rowCount }\<close>\<close>
  | Crud_ok nat string
      \<comment> \<open>\<open>{ success: true, affectedRows, message }\<close>\<close>
  | Schema_ok "string option" schema_object
      \<comment> \<open>\<open>{ success: true, database, schema }\<close>\<close>
  | Tables_ok "string option" "row list option"
      \<comment> \<open>\<open>{ success: true, database, tables }\<close>\<close>
  | TableSchema_ok "string option" string "row list option"
      \<comment> \<open>\<open>{ success: true, database, table, schema }\<close>\<close>
  | Procedures_ok "string option" "row list option"
      \<comment> \<open>\<open>{ success: true, database, procedures }\<close>\<close>
  | Triggers_ok "string option" "row list option"
      \<comment> \<open>\<open>{ success: true, database, triggers }\<close>\<close>
  | Views_ok "string option" "row list option"
      \<comment> \<open>\<open>{ success: true, database, views }\<close>\<close>

fun success :: "tool_response \<Rightarrow> bool" where
  "success (Failure m) = False"
| "success r = True"

text \<open>\<open>catch (error) { return { success: false, error: ... } }\<close>\<close>

definition caught :: "js_error \<Rightarrow> tool_response" where
  "caught e = Failure (error_message e)"

subsection \<open>\<open>QueryTool\<close>\<close>

definition not_allowed_message :: string where
  "not_allowed_message = ''Only SELECT, INSERT, UPDATE, DELETE, and EXEC statements are allowed''"

text \<open>The condition of the \<open>if\<close> that throws.\<close>

definition statement_refused :: "string \<Rightarrow> bool" where
  "statement_refused query =
     (let trimmedQuery = toLowerCase (trim query)
      in \<not> startsWith trimmedQuery ''select'' \<and>
         \<not> startsWith trimmedQuery ''insert'' \<and>
         \<not> startsWith trimmedQuery ''update'' \<and>
         \<not> startsWith trimmedQuery ''delete'' \<and>
         \<not> startsWith trimmedQuery ''exec'' \<and>
         \<not> startsWith trimmedQuery ''execute'')"

text \<open>
  The rest of the \<open>try\<close> block of \<open>execute\<close>, and its \<open>catch\<close>:
  \<open>return { success: true, data: result, rowCount: result.length }\<close>.
\<close>

definition query_reply ::
  "(js_error + row list option) \<times> world \<Rightarrow> (js_error + tool_response) \<times> world" where
  "query_reply x =
     (case x of
        (Inl e, w1) \<Rightarrow> (Inr (caught e), w1)
      | (Inr None, w1) \<Rightarrow> (Inr (caught (type_error_read ''length'')), w1)
      | (Inr (Some rows), w1) \<Rightarrow> (Inr (Query_ok rows (length rows)), w1))"

definition QueryTool_execute ::
  "tool_args option \<Rightarrow> environment \<Rightarrow> world \<Rightarrow> (js_error + tool_response) \<times> world" where
  "QueryTool_execute args env w =
     (case args of
        None \<Rightarrow> (Inl type_error_destructure, w)
      | Some a \<Rightarrow>
          (case arg_query a of
             None \<Rightarrow> (Inr (caught (type_error_read ''trim'')), w)
           | Some query \<Rightarrow>
               if statement_refused query then (Inr (caught (Error not_allowed_message)), w)
               else query_reply
                      (on_db (arg_database a) (executeQuery (Q_Text query) (arg_parameters a)) env w)))"

subsection \<open>\<open>CrudTool\<close>\<close>





subsection \<open>\<open>SchemaTool\<close>\<close>

text \<open>
  One of the four guarded assignments of \<open>getSchema\<close>:
  \<open>if (objectType === 'all' || objectType === key) result[key] = await db.get...()\<close>.
  An exception of an earlier step skips the later ones.
\<close>

definition schema_group ::
  "string \<Rightarrow> string \<Rightarrow> (server \<Rightarrow> database \<Rightarrow> (js_error + row list option) \<times> database)
     \<Rightarrow> string option \<Rightarrow> environment
     \<Rightarrow> (js_error + schema_object) \<times> world \<Rightarrow> (js_error + schema_object) \<times> world" where
  "schema_group objectType key method target env x =
     (case x of
        (Inl e, w) \<Rightarrow> (Inl e, w)
      | (Inr result, w) \<Rightarrow>
          if objectType = ''all'' \<or> objectType = key
          then (case on_db target method env w of
                  (Inl e, w1) \<Rightarrow> (Inl e, w1)
                | (Inr rows, w1) \<Rightarrow> (Inr (result @ [(key, rows)]), w1))
          else (Inr result, w))"

definition SchemaTool_getSchema ::
  "tool_args option \<Rightarrow> environment \<Rightarrow> world \<Rightarrow> (js_error + tool_response) \<times> world" where
  "SchemaTool_getSchema args env w =
     (case args of
        None \<Rightarrow> (Inl type_error_destructure, w)
      | Some a \<Rightarrow>
          (let database = arg_database a; objectType = default_to ''all'' (arg_objectType a)
           in (case schema_group objectType ''views'' getViews database env
                      (schema_group objectType ''triggers'' getTriggers database env
                         (schema_group objectType ''procedures'' getStoredProcedures database env
                            (schema_group objectType ''tables'' getTables database env
                               (Inr [], w)))) of
                 (Inl e, w1) \<Rightarrow> (Inr (caught e), w1)
               | (Inr result, w1) \<Rightarrow> (Inr (Schema_ok database result), w1))))"

text \<open>
  \<open>try { const rows = await db....; return { success: true, database, ...: rows } }
  catch (error) { ... }\<close>
\<close>

definition listing_reply ::
  "(row list option \<Rightarrow> tool_response) \<Rightarrow> (js_error + row list option) \<times> world
     \<Rightarrow> (js_error + tool_response) \<times> world" where
  "listing_reply ok x =
     (case x of
        (Inl e, w1) \<Rightarrow> (Inr (caught e), w1)
      | (Inr rows, w1) \<Rightarrow> (Inr (ok rows), w1))"




definition SchemaTool_getTriggers ::
  "tool_args option \<Rightarrow> environment \<Rightarrow> world \<Rightarrow> (js_error + tool_response) \<times> world" where
  "SchemaTool_getTriggers args env w =
     (case args of
        None \<Rightarrow> (Inl type_error_destructure, w)
      | Some a \<Rightarrow>
          listing_reply (Triggers_ok (arg_database a)) (on_db (arg_database a) getTriggers env w))"


section \<open>Resources\<close>

record resource =
  res_uri :: string
  res_name :: string
  res_description :: string
  res_mimeType :: string

text \<open>
  The \<open>text\<close> of a resource: SQL text, or the JSON document of a table, kept as the
  object that \<open>JSON.stringify\<close> receives (\<open>table\<close>, \<open>schema\<close>, \<open>sampleData\<close>).
\<close>

datatype resource_text =
    Sql_text string
  | Json_table "string option" "row list option" "row list option"

record resource_content =
  content_uri :: string
  content_mimeType :: string
  content_text :: resource_text

text \<open>The decimal digits of a number, as a template literal prints them.\<close>

fun show_nat :: "nat \<Rightarrow> string" where
  "show_nat n = (if n < 10 then [char_of (48 + n)] else show_nat (n div 10) @ [char_of (48 + n mod 10)])"

definition show_int :: "int \<Rightarrow> string" where
  "show_int i = (if i < 0 then ''-'' @ show_nat (nat (- i)) else show_nat (nat i))"

text \<open>\<open>${row.column}\<close>: the property of a row, converted to a string.\<close>

fun template_value :: "js_value option \<Rightarrow> string" where
  "template_value None = ''undefined''"
| "template_value (Some JUndefined) = ''undefined''"
| "template_value (Some JNull) = ''null''"
| "template_value (Some (JBool b)) = (if b then ''true'' else ''false'')"
| "template_value (Some (JNum n)) = show_int n"
| "template_value (Some (JStr s)) = s"

definition column :: "row \<Rightarrow> string \<Rightarrow> string" where
  "column r k = template_value (map_of r k)"

text \<open>\<open>rows.map(f)\<close> on the result of a listing; \<open>undefined.map\<close> throws.\<close>

definition mapped ::
  "(row \<Rightarrow> resource) \<Rightarrow> (js_error + row list option) \<times> world \<Rightarrow> (js_error + resource list) \<times> world" where
  "mapped f x =
     (case x of
        (Inl e, w1) \<Rightarrow> (Inl e, w1)
      | (Inr None, w1) \<Rightarrow> (Inl (type_error_read ''map''), w1)
      | (Inr (Some rows), w1) \<Rightarrow> (Inr (map f rows), w1))"

subsection \<open>\<open>TablesResource\<close>\<close>

definition table_resource :: "string \<Rightarrow> row \<Rightarrow> resource" where
  "table_resource database table =
     \<lparr>res_uri = ''mcp://ssms/'' @ database @ ''/tables/'' @ column table ''table_schema'' @ ''.''
                 @ column table ''table_name'',
      res_name = column table ''table_schema'' @ ''.'' @ column table ''table_name'',
      res_description = ''Table: '' @ column table ''table_schema'' @ ''.'' @ column table ''table_name'',
      res_mimeType = ''application/json''\<rparr>"

definition TablesResource_listTables ::
  "string \<Rightarrow> environment \<Rightarrow> world \<Rightarrow> (js_error + resource list) \<times> world" where
  "TablesResource_listTables database env w =
     mapped (table_resource database) (on_db (Some database) getTables env w)"

text \<open>
  \<open>const parts = uri.split('/'); const database = parts[2]; const tableName = parts[4];\<close>
\<close>

definition uri_database :: "string \<Rightarrow> string option" where
  "uri_database uri = at_index (split CHR ''/'' uri) 2"

definition uri_object :: "string \<Rightarrow> string option" where
  "uri_object uri = at_index (split CHR ''/'' uri) 4"

definition TablesResource_getTableResource ::
  "string \<Rightarrow> environment \<Rightarrow> world \<Rightarrow> (js_error + resource_content list) \<times> world" where
  "TablesResource_getTableResource uri env w =
     (let database = uri_database uri; tableName = uri_object uri
      in (case on_db database (getTableSchema tableName None) env w of
            (Inl e, w1) \<Rightarrow> (Inl e, w1)
          | (Inr schema, w1) \<Rightarrow>
              (case on_db database (getTableData tableName (Some ''dbo'') (Some 10) (Some 0)) env w1 of
                 (Inl e, w2) \<Rightarrow> (Inl e, w2)
               | (Inr data, w2) \<Rightarrow>
                   (Inr [\<lparr>content_uri = uri, content_mimeType = ''application/json'',
                          content_text = Json_table tableName schema data\<rparr>], w2))))"

subsection \<open>\<open>ProceduresResource\<close>, \<open>TriggersResource\<close>, \<open>ViewsResource\<close>\<close>

definition sql_content ::
  "string \<Rightarrow> (js_error + string) \<times> world \<Rightarrow> (js_error + resource_content list) \<times> world" where
  "sql_content uri x =
     (case x of
        (Inl e, w1) \<Rightarrow> (Inl e, w1)
      | (Inr definition_text, w1) \<Rightarrow>
          (Inr [\<lparr>content_uri = uri, content_mimeType = ''text/sql'',
                 content_text = Sql_text definition_text\<rparr>], w1))"

definition procedure_resource :: "string \<Rightarrow> row \<Rightarrow> resource" where
  "procedure_resource database proc =
     \<lparr>res_uri = ''mcp://ssms/'' @ database @ ''/procedures/'' @ column proc ''routine_schema'' @ ''.''
                 @ column proc ''routine_name'',
      res_name = column proc ''routine_schema'' @ ''.'' @ column proc ''routine_name'',
      res_description =
        ''Stored Procedure: '' @ column proc ''routine_schema'' @ ''.'' @ column proc ''routine_name'',
      res_mimeType = ''text/sql''\<rparr>"

definition ProceduresResource_listProcedures ::
  "string \<Rightarrow> environment \<Rightarrow> world \<Rightarrow> (js_error + resource list) \<times> world" where
  "ProceduresResource_listProcedures database env w =
     mapped (procedure_resource database) (on_db (Some database) getStoredProcedures env w)"

definition ProceduresResource_getProcedureResource ::
  "string \<Rightarrow> environment \<Rightarrow> world \<Rightarrow> (js_error + resource_content list) \<times> world" where
  "ProceduresResource_getProcedureResource uri env w =
     sql_content uri
       (on_db (uri_database uri) (getStoredProcedureDefinition (uri_object uri) None) env w)"

definition trigger_resource :: "string \<Rightarrow> row \<Rightarrow> resource" where
  "trigger_resource database trigger =
     \<lparr>res_uri = ''mcp://ssms/'' @ database @ ''/triggers/'' @ column trigger ''trigger_name'',
      res_name = column trigger ''trigger_name'',
      res_description =
        ''Trigger: '' @ column trigger ''trigger_name'' @ '' on table '' @ column trigger ''table_name'',
      res_mimeType = ''text/sql''\<rparr>"

definition TriggersResource_listTriggers ::
  "string \<Rightarrow> environment \<Rightarrow> world \<Rightarrow> (js_error + resource list) \<times> world" where
  "TriggersResource_listTriggers database env w =
     mapped (trigger_resource database) (on_db (Some database) getTriggers env w)"

definition TriggersResource_getTriggerResource ::
  "string \<Rightarrow> environment \<Rightarrow> world \<Rightarrow> (js_error + resource_content list) \<times> world" where
  "TriggersResource_getTriggerResource uri env w =
     sql_content uri (on_db (uri_database uri) (getTriggerDefinition (uri_object uri)) env w)"

definition view_resource :: "string \<Rightarrow> row \<Rightarrow> resource" where
  "view_resource database view =
     \<lparr>res_uri = ''mcp://ssms/'' @ database @ ''/views/'' @ column view ''table_schema'' @ ''.''
                 @ column view ''table_name'',
      res_name = column view ''table_schema'' @ ''.'' @ column view ''table_name'',
      res_description = ''View: '' @ column view ''table_schema'' @ ''.'' @ column view ''table_name'',
      res_mimeType = ''text/sql''\<rparr>"

definition ViewsResource_listViews ::
  "string \<Rightarrow> environment \<Rightarrow> world \<Rightarrow> (js_error + resource list) \<times> world" where
  "ViewsResource_listViews database env w =
     mapped (view_resource database) (on_db (Some database) getViews env w)"

definition ViewsResource_getViewResource ::
  "string \<Rightarrow> environment \<Rightarrow> world \<Rightarrow> (js_error + resource_content list) \<times> world" where
  "ViewsResource_getViewResource uri env w =
     sql_content uri (on_db (uri_database uri) (getViewDefinition (uri_object uri) None) env w)"

section \<open>The protocol front-end (\<open>SSMSServer.setupHandlers\<close>)\<close>

text \<open>
  The handlers return a value or throw; what the SDK does with a thrown error is outside
  the repository. \<open>Inl\<close> is an exception leaving the handler.
\<close>

text \<open>One listing of the \<open>ListResources\<close> handler, appended to those collected so far.\<close>

definition and_then ::
  "(environment \<Rightarrow> world \<Rightarrow> (js_error + resource list) \<times> world) \<Rightarrow> environment
     \<Rightarrow> (js_error + resource list) \<times> world \<Rightarrow> (js_error + resource list) \<times> world" where
  "and_then listing env x =
     (case x of
        (Inl e, w) \<Rightarrow> (Inl e, w)
      | (Inr resources, w) \<Rightarrow>
          (case listing env w of
             (Inl e, w1) \<Rightarrow> (Inl e, w1)
           | (Inr listed, w1) \<Rightarrow> (Inr (resources @ listed), w1)))"

definition listResources :: "environment \<Rightarrow> world \<Rightarrow> (js_error + resource list) \<times> world" where
  "listResources env w =
     and_then (ViewsResource_listViews ''datamgmt'') env
       (and_then (ViewsResource_listViews ''master'') env
          (and_then (TriggersResource_listTriggers ''datamgmt'') env
             (and_then (TriggersResource_listTriggers ''master'') env
                (and_then (ProceduresResource_listProcedures ''datamgmt'') env
                   (and_then (ProceduresResource_listProcedures ''master'') env
                      (and_then (TablesResource_listTables ''datamgmt'') env
                         (and_then (TablesResource_listTables ''master'') env (Inr [], w))))))))"

definition readResource ::
  "string \<Rightarrow> environment \<Rightarrow> world \<Rightarrow> (js_error + resource_content list) \<times> world" where
  "readResource uri env w =
     (if includes_str uri ''/tables/'' then TablesResource_getTableResource uri env w
      else if includes_str uri ''/procedures/'' then ProceduresResource_getProcedureResource uri env w
      else if includes_str uri ''/triggers/'' then TriggersResource_getTriggerResource uri env w
      else if includes_str uri ''/views/'' then ViewsResource_getViewResource uri env w
      else (Inl (Error (''Unknown resource type: '' @ uri)), w))"



section \<open>Notions of the specification\<close>

text \<open>
  A statement begins with a keyword when its trimmed text starts with a word that equals,
  up to case, one of the six keywords.
\<close>

definition allowed_keywords :: "string list" where
  "allowed_keywords = [''SELECT'', ''INSERT'', ''UPDATE'', ''DELETE'', ''EXEC'', ''EXECUTE'']"

definition begins_with_keyword :: "string \<Rightarrow> bool" where
  "begins_with_keyword query =
     (\<exists>word rest. trim query = word @ rest \<and> toLowerCase word \<in> toLowerCase ` set allowed_keywords)"

text \<open>
  The server accepts connections and answers requests, and the object either has no pool
  yet or holds a connected one.
\<close>

definition healthy :: "server \<Rightarrow> database \<Rightarrow> bool" where
  "healthy srv db =
     (connect_failure srv = None \<and> fault srv = None \<and>
      (case pool db of None \<Rightarrow> True | Some p \<Rightarrow> connected p))"





text \<open>A string column of a returned row; \<open>NULL\<close> orders before every string.\<close>

definition string_field :: "row \<Rightarrow> string \<Rightarrow> string option" where
  "string_field r k = (case map_of r k of Some (JStr s) \<Rightarrow> Some s | _ \<Rightarrow> None)"

definition schema_and_name :: "string \<Rightarrow> string \<Rightarrow> row \<Rightarrow> string option \<times> string option" where
  "schema_and_name schema_column name_column r = (string_field r schema_column, string_field r name_column)"

definition columns_of :: "catalog \<Rightarrow> string \<Rightarrow> string \<Rightarrow> info_column list" where
  "columns_of c schema table =
     filter (\<lambda>x. col_table_name x = table \<and> col_table_schema x = schema) (COLUMNS c)"

text \<open>The statements handed to \<open>request.query\<close> so far, with their inputs.\<close>

fun request_of :: "event \<Rightarrow> (statement \<times> (string \<times> js_value) list) option" where
  "request_of (Ev_query h q inputs) = Some (q, inputs)"
| "request_of e = None"

definition requests :: "database \<Rightarrow> (statement \<times> (string \<times> js_value) list) list" where
  "requests db = List.map_filter request_of (calls db)"

text \<open>The object and the server that \<open>database === 'master' ? ... : ...\<close> selects.\<close>

definition target_db :: "string option \<Rightarrow> world \<Rightarrow> database" where
  "target_db target w = (if target = Some ''master'' then masterDb w else dataMgmtDb w)"

definition target_server :: "string option \<Rightarrow> environment \<Rightarrow> server" where
  "target_server target env = (if target = Some ''master'' then master_server env else datamgmt_server env)"

subsection \<open>A small installation\<close>

definition example_catalog :: catalog where
  "example_catalog =
     \<lparr>TABLES =
        [\<lparr>tbl_schema = ''App'', tbl_name = ''User'', tbl_type = ''BASE TABLE''\<rparr>,
         \<lparr>tbl_schema = ''App'', tbl_name = ''ActiveUsers'', tbl_type = ''VIEW''\<rparr>,
         \<lparr>tbl_schema = ''App'', tbl_name = ''Client'', tbl_type = ''BASE TABLE''\<rparr>],
      COLUMNS =
        [\<lparr>col_table_schema = ''App'', col_table_name = ''User'', col_name = ''Name'',
          col_ordinal_position = 2, col_data_type = ''nvarchar'', col_is_nullable = ''YES'',
          col_default = None, col_character_maximum_length = Some 50\<rparr>,
         \<lparr>col_table_schema = ''App'', col_table_name = ''Client'', col_name = ''Id'',
          col_ordinal_position = 1, col_data_type = ''int'', col_is_nullable = ''NO'',
          col_default = None, col_character_maximum_length = None\<rparr>,
         \<lparr>col_table_schema = ''App'', col_table_name = ''User'', col_name = ''Id'',
          col_ordinal_position = 1, col_data_type = ''int'', col_is_nullable = ''NO'',
          col_default = None, col_character_maximum_length = None\<rparr>],
      ROUTINES =
        [\<lparr>rtn_schema = ''dbo'', rtn_name = ''usp_Purge'', rtn_type = ''PROCEDURE''\<rparr>,
         \<lparr>rtn_schema = ''App'', rtn_name = ''fn_Total'', rtn_type = ''FUNCTION''\<rparr>,
         \<lparr>rtn_schema = ''App'', rtn_name = ''usp_Load'', rtn_type = ''PROCEDURE''\<rparr>],
      triggers =
        [\<lparr>trg_name = ''trg_b'', trg_table_name = Some ''Client'', trg_is_disabled = 0\<rparr>,
         \<lparr>trg_name = ''trg_c'', trg_table_name = Some ''User'', trg_is_disabled = 1\<rparr>,
         \<lparr>trg_name = ''trg_a'', trg_table_name = Some ''Orders'', trg_is_disabled = 0\<rparr>],
      VIEWS = [\<lparr>vw_schema = ''App'', vw_name = ''ActiveUsers''\<rparr>],
      definitions = [(''App.ActiveUsers'', ''CREATE VIEW App.ActiveUsers AS SELECT 1 AS x'')]\<rparr>"

definition empty_catalog :: catalog where
  "empty_catalog =
     \<lparr>TABLES = [], COLUMNS = [], ROUTINES = [], triggers = [], VIEWS = [], definitions = []\<rparr>"

text \<open>
  A server that answers a run-time \<open>SELECT\<close> with one row and reports \<open>k\<close> affected rows
  for every other run-time statement.
\<close>

definition example_server :: "catalog \<Rightarrow> nat \<Rightarrow> server" where
  "example_server c k =
     \<lparr>connect_failure = None,
      not_open_error = Error ''Connection not yet open.'',
      fault = None,
      invalid_column =
        (\<lambda>name. Error (''Invalid column name '' @ [CHR 0x27] @ name @ [CHR 0x27] @ ''.'')),
      cat = c,
      run_text =
        (\<lambda>text inputs.
           if startsWith (toLowerCase (trim text)) ''select''
           then Inr \<lparr>recordset = Some [[(''value'', JNum 1)]], rowsAffected = [1]\<rparr>
           else Inr \<lparr>recordset = None, rowsAffected = [k]\<rparr>),
      run_procedure = (\<lambda>name inputs. Inr \<lparr>recordset = Some [], rowsAffected = []\<rparr>)\<rparr>"

definition login_failed :: js_error where
  "login_failed = Error ''Login failed for user''"

definition unreachable_server :: server where
  "unreachable_server = (example_server example_catalog 0)\<lparr>connect_failure := Some login_failed\<rparr>"






definition example_environment :: environment where
  "example_environment =
     \<lparr>master_server = example_server example_catalog 0,
      datamgmt_server = example_server empty_catalog 0\<rparr>"





definition no_args :: tool_args where
  "no_args =
     \<lparr>arg_database = None, arg_query = None, arg_parameters = None, arg_tableName = None,
      arg_schema = None, arg_data = None, arg_whereClause = None, arg_whereParameters = None,
      arg_objectType = None\<rparr>"

section \<open>Properties\<close>

subsection \<open>Requests on a healthy connection\<close>

lemma returning_one_Inr: "fst (returning_one x) = Inr n \<Longrightarrow> n = 1"
  by (auto simp: returning_one_def split: prod.splits sum.splits)

lemma connect_healthy:
  "healthy srv db \<Longrightarrow> \<exists>db1 p. connect srv db = (Inr (), db1) \<and> pool db1 = Some p \<and> connected p"
  by (auto simp: healthy_def connect_def Let_def split: option.splits)

lemma executeQuery_healthy:
  "healthy srv db \<Longrightarrow>
     fst (executeQuery query parameters srv db) =
       (case server_query srv query (request_inputs parameters) of
          Inl e \<Rightarrow> Inl e | Inr res \<Rightarrow> Inr (recordset res))"
  by (auto simp: healthy_def executeQuery_def connect_def Let_def split: option.splits sum.splits)

lemma executeQuery_text_accepted:
  "healthy srv db \<Longrightarrow> run_text srv text (request_inputs parameters) = Inr res \<Longrightarrow>
     fst (executeQuery (Q_Text text) parameters srv db) = Inr (recordset res)"
  by (simp add: executeQuery_healthy server_query_def healthy_def)

lemma returning_one_accepted: "fst x = Inr r \<Longrightarrow> fst (returning_one x) = Inr 1"
  by (cases x) (simp add: returning_one_def)

lemma healthy_example: "healthy (example_server c k) new_database"
  by (simp add: healthy_def example_server_def new_database_def)

subsection \<open>Affected-row counts\<close>

text \<open>
  C3. Every successful \<open>insertData\<close>, \<open>updateData\<close> and \<open>deleteData\<close> returns the count 1,
  and does so whatever \<open>rowsAffected\<close> the server reports for the statement.
\<close>

theorem affected_rows_fixed:
  "(fst (insertData tableName schema data srv db) = Inr n \<longrightarrow> n = 1) \<and>
   (fst (updateData tableName schema data whereClause whereParameters srv db) = Inr n \<longrightarrow> n = 1) \<and>
   (fst (deleteData tableName schema whereClause whereParameters srv db) = Inr n \<longrightarrow> n = 1) \<and>
   (healthy srv db \<and>
    run_text srv (insert_query tableName (default_to ''dbo'' schema) d) (fromEntries d) = Inr res
      \<longrightarrow> fst (insertData tableName schema (Some d) srv db) = Inr 1) \<and>
   (healthy srv db \<and>
    run_text srv (update_query tableName (default_to ''dbo'' schema) d whereClause)
      (spread d (default_to [] whereParameters)) = Inr res
      \<longrightarrow> fst (updateData tableName schema (Some d) whereClause whereParameters srv db) = Inr 1) \<and>
   (healthy srv db \<and>
    run_text srv (delete_query tableName (default_to ''dbo'' schema) whereClause)
      (default_to [] whereParameters) = Inr res
      \<longrightarrow> fst (deleteData tableName schema whereClause whereParameters srv db) = Inr 1)"
proof (intro conjI impI)
  assume "fst (insertData tableName schema data srv db) = Inr n"
  then show "n = 1"
    by (auto simp: insertData_def dest: returning_one_Inr split: option.splits)
next
  assume "fst (updateData tableName schema data whereClause whereParameters srv db) = Inr n"
  then show "n = 1"
    by (auto simp: updateData_def dest: returning_one_Inr split: option.splits)
next
  assume "fst (deleteData tableName schema whereClause whereParameters srv db) = Inr n"
  then show "n = 1"
    by (auto simp: deleteData_def dest: returning_one_Inr)
next
  assume "healthy srv db \<and>
    run_text srv (insert_query tableName (default_to ''dbo'' schema) d) (fromEntries d) = Inr res"
  then show "fst (insertData tableName schema (Some d) srv db) = Inr 1"
    by (simp add: insertData_def returning_one_accepted executeQuery_text_accepted)
next
  assume "healthy srv db \<and>
    run_text srv (update_query tableName (default_to ''dbo'' schema) d whereClause)
      (spread d (default_to [] whereParameters)) = Inr res"
  then show "fst (updateData tableName schema (Some d) whereClause whereParameters srv db) = Inr 1"
    by (simp add: updateData_def returning_one_accepted executeQuery_text_accepted)
next
  assume "healthy srv db \<and>
    run_text srv (delete_query tableName (default_to ''dbo'' schema) whereClause)
      (default_to [] whereParameters) = Inr res"
  then show "fst (deleteData tableName schema whereClause whereParameters srv db) = Inr 1"
    by (simp add: deleteData_def returning_one_accepted executeQuery_text_accepted)
qed

theorem affected_rows_fixed_witness:
  "run_text (example_server example_catalog 3) (insert_query (Some ''Client'') (default_to ''dbo'' None) [(''Id'', JNum 7)])
      (fromEntries [(''Id'', JNum 7)]) = Inr \<lparr>recordset = None, rowsAffected = [3]\<rparr> \<and>
   fst (insertData (Some ''Client'') None (Some [(''Id'', JNum 7)]) (example_server example_catalog 3) new_database) = Inr 1 \<and>
   run_text (example_server example_catalog 0) (update_query (Some ''Client'') (default_to ''dbo'' None) [(''Name'', JStr ''x'')] (Some ''1 = 0''))
      (spread [(''Name'', JStr ''x'')] (default_to [] None)) = Inr \<lparr>recordset = None, rowsAffected = [0]\<rparr> \<and>
   fst (updateData (Some ''Client'') None (Some [(''Name'', JStr ''x'')]) (Some ''1 = 0'') None
          (example_server example_catalog 0) new_database) = Inr 1 \<and>
   run_text (example_server example_catalog 5) (delete_query (Some ''Client'') (default_to ''dbo'' None) (Some ''1 = 1''))
      (default_to [] None) = Inr \<lparr>recordset = None, rowsAffected = [5]\<rparr> \<and>
   fst (deleteData (Some ''Client'') None (Some ''1 = 1'') None (example_server example_catalog 5) new_database) = Inr 1"
proof -
  have i: "run_text (example_server example_catalog 3) (insert_query (Some ''Client'') (default_to ''dbo'' None) [(''Id'', JNum 7)])
      (fromEntries [(''Id'', JNum 7)]) = Inr \<lparr>recordset = None, rowsAffected = [3]\<rparr>"
    by code_simp
  have u: "run_text (example_server example_catalog 0) (update_query (Some ''Client'') (default_to ''dbo'' None) [(''Name'', JStr ''x'')] (Some ''1 = 0''))
      (spread [(''Name'', JStr ''x'')] (default_to [] None)) = Inr \<lparr>recordset = None, rowsAffected = [0]\<rparr>"
    by code_simp
  have d: "run_text (example_server example_catalog 5) (delete_query (Some ''Client'') (default_to ''dbo'' None) (Some ''1 = 1''))
      (default_to [] None) = Inr \<lparr>recordset = None, rowsAffected = [5]\<rparr>"
    by code_simp
  have i1: "fst (insertData (Some ''Client'') None (Some [(''Id'', JNum 7)]) (example_server example_catalog 3) new_database) = Inr 1"
    using affected_rows_fixed [THEN conjunct2, THEN conjunct2, THEN conjunct2, THEN conjunct1, rule_format,
        OF conjI [OF healthy_example i]] .
  have u1: "fst (updateData (Some ''Client'') None (Some [(''Name'', JStr ''x'')]) (Some ''1 = 0'') None
          (example_server example_catalog 0) new_database) = Inr 1"
    using affected_rows_fixed [THEN conjunct2, THEN conjunct2, THEN conjunct2, THEN conjunct2, THEN conjunct1,
        rule_format, OF conjI [OF healthy_example u]] .
  have d1: "fst (deleteData (Some ''Client'') None (Some ''1 = 1'') None (example_server example_catalog 5) new_database) = Inr 1"
    using affected_rows_fixed [THEN conjunct2, THEN conjunct2, THEN conjunct2, THEN conjunct2, THEN conjunct2,
        rule_format, OF conjI [OF healthy_example d]] .
  from i u d i1 u1 d1 show ?thesis by blast
qed

subsection \<open>The keyword gate\<close>

lemma startsWith_append: "startsWith s (p @ q) \<Longrightarrow> startsWith s p"
  unfolding startsWith_def
  by (metis append_eq_conv_conj append.assoc append_take_drop_id)

lemma startsWith_execute: "startsWith s ''execute'' \<Longrightarrow> startsWith s ''exec''"
  using startsWith_append [of s "''exec''" "''ute''"] by simp

lemma startsWith_lower_iff:
  "startsWith (toLowerCase s) k \<longleftrightarrow> (\<exists>word rest. s = word @ rest \<and> toLowerCase word = k)"
proof
  assume h: "startsWith (toLowerCase s) k"
  have "s = take (length k) s @ drop (length k) s"
    by simp
  moreover have "toLowerCase (take (length k) s) = k"
    using h by (simp add: startsWith_def toLowerCase_def take_map)
  ultimately show "\<exists>word rest. s = word @ rest \<and> toLowerCase word = k"
    by blast
next
  assume "\<exists>word rest. s = word @ rest \<and> toLowerCase word = k"
  then obtain word rest where s: "s = word @ rest" and k: "toLowerCase word = k"
    by blast
  from k have "length k = length word"
    by (auto simp: toLowerCase_def)
  with s k show "startsWith (toLowerCase s) k"
    by (auto simp: startsWith_def toLowerCase_def)
qed

lemma lower_keywords:
  "toLowerCase ` set allowed_keywords = {''select'', ''insert'', ''update'', ''delete'', ''exec'', ''execute''}"
proof -
  have "map toLowerCase allowed_keywords = [''select'', ''insert'', ''update'', ''delete'', ''exec'', ''execute'']"
    by code_simp
  then have "set (map toLowerCase allowed_keywords) = set [''select'', ''insert'', ''update'', ''delete'', ''exec'', ''execute'']"
    by (rule arg_cong)
  then show ?thesis
    by simp
qed

lemma begins_with_keyword_iff:
  "begins_with_keyword query \<longleftrightarrow> (\<exists>k \<in> toLowerCase ` set allowed_keywords. startsWith (toLowerCase (trim query)) k)"
  unfolding begins_with_keyword_def startsWith_lower_iff by blast

lemma refused_iff: "statement_refused query \<longleftrightarrow> \<not> begins_with_keyword query"
  unfolding begins_with_keyword_iff lower_keywords
  by (auto simp: statement_refused_def Let_def)

lemma on_db_fst: "fst (on_db t m env w) = fst (m (target_server t env) (target_db t w))"
  by (simp add: on_db_def target_server_def target_db_def split: prod.splits)

lemma on_db_target: "target_db t (snd (on_db t m env w)) = snd (m (target_server t env) (target_db t w))"
  by (simp add: on_db_def target_server_def target_db_def split: prod.splits)

lemma query_reply_snd: "snd (query_reply x) = snd x"
  by (auto simp: query_reply_def split: prod.splits sum.splits option.splits)

lemma executeQuery_requests:
  "connect_failure srv = None \<or> pool db \<noteq> None \<Longrightarrow>
     requests (snd (executeQuery q ps srv db)) = requests db @ [(q, request_inputs ps)]"
  by (auto simp: executeQuery_def connect_def Let_def requests_def map_filter_def
      split: option.splits sum.splits)

text \<open>
  C1. A statement that does not begin with one of the six keywords is answered with the
  validation failure and leaves both connection managers untouched (no connection attempt,
  no request); a statement that does is passed to \<open>executeQuery\<close> unchanged, and one
  request with its text is submitted to the driver.
\<close>

theorem query_gate:
  "arg_query a = Some query \<Longrightarrow>
   (\<not> begins_with_keyword query \<longrightarrow>
      QueryTool_execute (Some a) env w = (Inr (Failure not_allowed_message), w)) \<and>
   (begins_with_keyword query \<longrightarrow>
      QueryTool_execute (Some a) env w =
        query_reply (on_db (arg_database a) (executeQuery (Q_Text query) (arg_parameters a)) env w) \<and>
      (connect_failure (target_server (arg_database a) env) = None \<or>
       pool (target_db (arg_database a) w) \<noteq> None \<longrightarrow>
         requests (target_db (arg_database a) (snd (QueryTool_execute (Some a) env w))) =
           requests (target_db (arg_database a) w) @ [(Q_Text query, request_inputs (arg_parameters a))]))"
proof (intro conjI impI)
  assume a: "arg_query a = Some query" and "\<not> begins_with_keyword query"
  then have "statement_refused query"
    by (simp add: refused_iff)
  with a show "QueryTool_execute (Some a) env w = (Inr (Failure not_allowed_message), w)"
    by (simp add: QueryTool_execute_def caught_def)
next
  assume a: "arg_query a = Some query" and "begins_with_keyword query"
  then have r: "\<not> statement_refused query"
    by (simp add: refused_iff)
  with a show e: "QueryTool_execute (Some a) env w =
        query_reply (on_db (arg_database a) (executeQuery (Q_Text query) (arg_parameters a)) env w)"
    by (simp add: QueryTool_execute_def)
  assume "connect_failure (target_server (arg_database a) env) = None \<or>
       pool (target_db (arg_database a) w) \<noteq> None"
  then show "requests (target_db (arg_database a) (snd (QueryTool_execute (Some a) env w))) =
           requests (target_db (arg_database a) w) @ [(Q_Text query, request_inputs (arg_parameters a))]"
    by (simp only: e query_reply_snd on_db_target executeQuery_requests)
qed

theorem query_gate_witness:
  "\<not> begins_with_keyword ''DROP TABLE Users'' \<and>
   QueryTool_execute (Some (no_args\<lparr>arg_query := Some ''DROP TABLE Users''\<rparr>)) example_environment new_world
     = (Inr (Failure not_allowed_message), new_world) \<and>
   begins_with_keyword ''  SeLeCt 1 '' \<and>
   fst (QueryTool_execute (Some (no_args\<lparr>arg_query := Some ''  SeLeCt 1 ''\<rparr>)) example_environment new_world)
     = Inr (Query_ok [[(''value'', JNum 1)]] 1) \<and>
   requests (dataMgmtDb (snd (QueryTool_execute (Some (no_args\<lparr>arg_query := Some ''  SeLeCt 1 ''\<rparr>))
       example_environment new_world)))
     = [(Q_Text ''  SeLeCt 1 '', [])]"
proof -
  let ?drop = "no_args\<lparr>arg_query := Some ''DROP TABLE Users''\<rparr>"
  let ?select = "no_args\<lparr>arg_query := Some ''  SeLeCt 1 ''\<rparr>"
  have "statement_refused ''DROP TABLE Users''"
    by code_simp
  then have no: "\<not> begins_with_keyword ''DROP TABLE Users''"
    by (simp add: refused_iff)
  have "\<not> statement_refused ''  SeLeCt 1 ''"
    by code_simp
  then have yes: "begins_with_keyword ''  SeLeCt 1 ''"
    by (simp add: refused_iff)
  have d: "arg_query ?drop = Some ''DROP TABLE Users''" and s: "arg_query ?select = Some ''  SeLeCt 1 ''"
    by simp_all
  have refused: "QueryTool_execute (Some ?drop) example_environment new_world
      = (Inr (Failure not_allowed_message), new_world)"
    using query_gate [OF d, THEN conjunct1, rule_format, OF no] .
  note admitted = query_gate [where env = example_environment and w = new_world, OF s, THEN conjunct2,
      rule_format, OF yes]
  have "query_reply (on_db (arg_database ?select) (executeQuery (Q_Text ''  SeLeCt 1 '') (arg_parameters ?select))
          example_environment new_world)
      = (Inr (Query_ok [[(''value'', JNum 1)]] 1),
         new_world\<lparr>dataMgmtDb := \<lparr>pool = Some \<lparr>handle = 0, connected = True\<rparr>, pools_created = 1,
           calls = [Ev_connect 0, Ev_query 0 (Q_Text ''  SeLeCt 1 '') []]\<rparr>\<rparr>)"
    by code_simp
  with admitted [THEN conjunct1]
  have reply: "fst (QueryTool_execute (Some ?select) example_environment new_world)
      = Inr (Query_ok [[(''value'', JNum 1)]] 1)"
    by simp
  have "connect_failure (target_server (arg_database ?select) example_environment) = None"
    by (simp add: target_server_def no_args_def example_environment_def example_server_def)
  with admitted [THEN conjunct2]
  have "requests (target_db (arg_database ?select) (snd (QueryTool_execute (Some ?select) example_environment new_world)))
      = requests (target_db (arg_database ?select) new_world)
          @ [(Q_Text ''  SeLeCt 1 '', request_inputs (arg_parameters ?select))]"
    by blast
  then have sent: "requests (dataMgmtDb (snd (QueryTool_execute (Some ?select) example_environment new_world)))
      = [(Q_Text ''  SeLeCt 1 '', [])]"
    by (simp add: target_db_def no_args_def new_world_def new_database_def requests_def map_filter_def)
  from no refused yes reply sent show ?thesis
    by blast
qed

subsection \<open>Unknown object types\<close>

lemma schema_group_skip:
  "objectType \<noteq> ''all'' \<Longrightarrow> objectType \<noteq> key \<Longrightarrow>
     schema_group objectType key method target env (Inr result, w) = (Inr result, w)"
  by (simp add: schema_group_def)

text \<open>
  C9. When \<open>objectType\<close> is a string other than \<open>tables\<close>, \<open>procedures\<close>, \<open>triggers\<close>,
  \<open>views\<close> and \<open>all\<close>, \<open>getSchema\<close> answers \<open>{success: true}\<close> with the empty schema
  object, and neither connection manager is touched: no group is queried.
\<close>

theorem getSchema_unknown_objectType:
  "arg_objectType a = Some objectType \<Longrightarrow>
   objectType \<notin> {''tables'', ''procedures'', ''triggers'', ''views'', ''all''} \<Longrightarrow>
     SchemaTool_getSchema (Some a) env w = (Inr (Schema_ok (arg_database a) []), w) \<and>
     success (Schema_ok (arg_database a) [])"
  by (simp add: SchemaTool_getSchema_def schema_group_skip)

theorem getSchema_unknown_objectType_witness:
  "arg_objectType (no_args\<lparr>arg_database := Some ''master'', arg_objectType := Some ''functions''\<rparr>)
     = Some ''functions'' \<and>
   ''functions'' \<notin> {''tables'', ''procedures'', ''triggers'', ''views'', ''all''} \<and>
   SchemaTool_getSchema (Some (no_args\<lparr>arg_database := Some ''master'', arg_objectType := Some ''functions''\<rparr>))
       example_environment new_world
     = (Inr (Schema_ok (Some ''master'') []), new_world)"
proof -
  let ?a = "no_args\<lparr>arg_database := Some ''master'', arg_objectType := Some ''functions''\<rparr>"
  have t: "arg_objectType ?a = Some ''functions''"
    by simp
  have n: "''functions'' \<notin> {''tables'', ''procedures'', ''triggers'', ''views'', ''all''}"
    by simp
  have "arg_database ?a = Some ''master''"
    by simp
  with getSchema_unknown_objectType [OF t n, of example_environment new_world] t n show ?thesis
    by simp
qed

subsection \<open>Merged parameters\<close>

lemma map_of_obj_set: "map_of (obj_set k v ob) = (map_of ob)(k \<mapsto> v)"
  by (induction ob) auto

lemma keys_obj_set:
  "map fst (obj_set k v ob) = (if k \<in> set (map fst ob) then map fst ob else map fst ob @ [k])"
  by (induction ob) (force simp: image_iff)+

lemma distinct_obj_set: "distinct (map fst ob) \<Longrightarrow> distinct (map fst (obj_set k v ob))"
  by (simp only: keys_obj_set split: if_splits) simp

lemma distinct_assign_all:
  "distinct (map fst target) \<Longrightarrow> distinct (map fst (assign_all target source))"
  unfolding assign_all_def
  by (induction source arbitrary: target) (auto simp: distinct_obj_set)

lemma keys_assign_all:
  "set (map fst (assign_all target source)) = set (map fst target) \<union> set (map fst source)"
  unfolding assign_all_def
proof (induction source arbitrary: target)
  case Nil
  then show ?case by simp
next
  case (Cons p source)
  obtain k v where p: "p = (k, v)"
    by (cases p)
  have "set (map fst (obj_set k v target)) = insert k (set (map fst target))"
    by (simp only: keys_obj_set split: if_splits) auto
  with Cons.IH [of "obj_set k v target"] show ?case
    by (simp add: p)
qed

lemma map_of_assign_all:
  "map_of (assign_all target source) = map_of target ++ map_of (rev source)"
  unfolding assign_all_def
proof (induction source arbitrary: target)
  case Nil
  then show ?case by simp
next
  case (Cons p source)
  obtain k v where p: "p = (k, v)"
    by (cases p)
  have "map_of (fold (\<lambda>(k, v). obj_set k v) source (obj_set k v target))
      = map_of (obj_set k v target) ++ map_of (rev source)"
    by (rule Cons.IH)
  also have "\<dots> = map_of target ++ (map_of (rev source @ [(k, v)]))"
    by (simp add: map_of_obj_set map_add_def fun_eq_iff split: option.splits)
  finally show ?case
    by (simp add: p)
qed

lemma map_of_rev_distinct: "distinct (map fst xs) \<Longrightarrow> map_of (rev xs) = map_of xs"
proof (induction xs)
  case Nil
  then show ?case by simp
next
  case (Cons p xs)
  then have "fst p \<notin> dom (map_of xs)"
    by (simp add: dom_map_of_conv_image_fst)
  with Cons show ?case
    by (cases p) (auto simp: map_add_def fun_eq_iff domIff split: option.splits)
qed

lemma param_spread:
  "param (spread d wp) k = (case param wp k of Some v \<Rightarrow> Some v | None \<Rightarrow> param d k)"
proof -
  have "distinct (map fst (spread d wp))"
    by (simp add: spread_def distinct_assign_all)
  then have "param (spread d wp) k = map_of (spread d wp) k"
    by (simp add: param_def map_of_rev_distinct)
  then show ?thesis
    by (simp add: spread_def map_of_assign_all param_def map_add_def split: option.splits)
qed

lemma bound_once:
  assumes "distinct (map fst ob)" and "k \<in> set (map fst ob)"
  shows "length (filter (\<lambda>p. fst p = k) ob) = 1"
  using assms
proof (induction ob)
  case Nil
  then show ?case by simp
next
  case (Cons p ob)
  show ?case
  proof (cases "fst p = k")
    case True
    with Cons.prems have "k \<notin> set (map fst ob)"
      by auto
    then have "filter (\<lambda>p. fst p = k) ob = []"
      by (force simp: filter_empty_conv)
    with True show ?thesis by simp
  next
    case False
    with Cons show ?thesis by auto
  qed
qed

lemma includes_str_middle: "includes_str (p @ s @ q) s"
proof (induction p)
  case Nil
  have sw: "startsWith (s @ q) s"
    by (simp add: startsWith_def)
  show ?case
  proof (cases "s @ q")
    case Nil
    then show ?thesis by simp
  next
    case (Cons a list)
    with sw have "startsWith (a # list) s"
      by simp
    with Cons show ?thesis
      by simp
  qed
next
  case (Cons c p)
  then show ?case by simp
qed

lemma join_holds_element:
  "x \<in> set xs \<Longrightarrow> \<exists>p q. join sep xs = p @ x @ q"
proof (induction sep xs rule: join.induct)
  case (1 sep)
  then show ?case by simp
next
  case (2 sep y)
  then have "join sep [y] = [] @ x @ []"
    by simp
  then show ?case by blast
next
  case (3 sep y z zs)
  show ?case
  proof (cases "x = y")
    case True
    then have "join sep (y # z # zs) = [] @ x @ (sep @ join sep (z # zs))"
      by simp
    then show ?thesis by blast
  next
    case False
    with 3 obtain p q where "join sep (z # zs) = p @ x @ q"
      by auto
    then have "join sep (y # z # zs) = (y @ sep @ p) @ x @ q"
      by simp
    then show ?thesis by blast
  qed
qed

lemma set_clause_names_placeholder:
  assumes "k \<in> fst ` set d"
  shows "includes_str (update_query tableName schema d whereClause) (''['' @ k @ ''] = @'' @ k)"
proof -
  let ?f = "\<lambda>key. ''['' @ key @ ''] = @'' @ key"
  from assms have "?f k \<in> set (map ?f (map fst d))"
    by auto
  then obtain p q where "join '', '' (map ?f (map fst d)) = p @ ?f k @ q"
    using join_holds_element by blast
  then have "update_query tableName schema d whereClause =
      (''UPDATE ['' @ schema @ ''].['' @ interpolate tableName @ ''] SET '' @ p) @ ?f k
        @ (q @ '' WHERE '' @ interpolate whereClause)"
    by (simp add: update_query_def)
  then show ?thesis
    by (simp only: includes_str_middle)
qed

text \<open>
  C8. When a name \<open>k\<close> is both a column of the row data and a key of \<open>whereParameters\<close>,
  \<open>updateData\<close> raises nothing of its own: it hands the statement to \<open>executeQuery\<close> with
  the merged parameters, in which \<open>k\<close> occurs once and carries the value from
  \<open>whereParameters\<close>, whatever the row data held, while the \<open>SET\<close> clause assigns
  \<open>[k] = @k\<close>; on a healthy connection the outcome is the server's alone.
\<close>

theorem update_name_collision:
  assumes "k \<in> fst ` set d" and "param wp k = Some v"
  shows "updateData tableName schema (Some d) whereClause (Some wp) srv db =
           returning_one
             (executeQuery (Q_Text (update_query tableName (default_to ''dbo'' schema) d whereClause))
                (Some (spread d wp)) srv db) \<and>
         param (spread d wp) k = Some v \<and>
         length (filter (\<lambda>p. fst p = k) (spread d wp)) = 1 \<and>
         includes_str (update_query tableName (default_to ''dbo'' schema) d whereClause)
           (''['' @ k @ ''] = @'' @ k) \<and>
         (healthy srv db \<longrightarrow>
            fst (updateData tableName schema (Some d) whereClause (Some wp) srv db) =
              (case run_text srv (update_query tableName (default_to ''dbo'' schema) d whereClause)
                      (spread d wp) of
                 Inl e \<Rightarrow> Inl e
               | Inr res \<Rightarrow> Inr 1))"
proof (intro conjI impI)
  show "updateData tableName schema (Some d) whereClause (Some wp) srv db =
           returning_one
             (executeQuery (Q_Text (update_query tableName (default_to ''dbo'' schema) d whereClause))
                (Some (spread d wp)) srv db)"
    by (simp add: updateData_def)
  show "param (spread d wp) k = Some v"
    using assms(2) by (simp add: param_spread)
  have "k \<in> set (map fst (spread d wp))"
    using assms(1) by (simp only: spread_def keys_assign_all) simp
  moreover have "distinct (map fst (spread d wp))"
    by (simp add: spread_def distinct_assign_all)
  ultimately show "length (filter (\<lambda>p. fst p = k) (spread d wp)) = 1"
    by (simp add: bound_once)
  show "includes_str (update_query tableName (default_to ''dbo'' schema) d whereClause)
           (''['' @ k @ ''] = @'' @ k)"
    using assms(1) by (rule set_clause_names_placeholder)
next
  assume "healthy srv db"
  then show "fst (updateData tableName schema (Some d) whereClause (Some wp) srv db) =
              (case run_text srv (update_query tableName (default_to ''dbo'' schema) d whereClause)
                      (spread d wp) of
                 Inl e \<Rightarrow> Inl e
               | Inr res \<Rightarrow> Inr 1)"
    by (cases "executeQuery (Q_Text (update_query tableName (default_to ''dbo'' schema) d whereClause))
                (Some (spread d wp)) srv db")
      (use executeQuery_healthy [of srv db "Q_Text (update_query tableName (default_to ''dbo'' schema) d whereClause)"
          "Some (spread d wp)"] in
        \<open>auto simp: updateData_def returning_one_def server_query_def healthy_def split: sum.splits\<close>)
qed

theorem update_name_collision_witness:
  "''Id'' \<in> fst ` set [(''Id'', JNum 7), (''Name'', JStr ''x'')] \<and>
   param [(''Id'', JNum 9)] ''Id'' = Some (JNum 9) \<and>
   param [(''Id'', JNum 7), (''Name'', JStr ''x'')] ''Id'' = Some (JNum 7) \<and>
   param (spread [(''Id'', JNum 7), (''Name'', JStr ''x'')] [(''Id'', JNum 9)]) ''Id'' = Some (JNum 9) \<and>
   update_query (Some ''Client'') ''dbo'' [(''Id'', JNum 7), (''Name'', JStr ''x'')] (Some ''Id = @Id'')
     = ''UPDATE [dbo].[Client] SET [Id] = @Id, [Name] = @Name WHERE Id = @Id'' \<and>
   fst (updateData (Some ''Client'') None (Some [(''Id'', JNum 7), (''Name'', JStr ''x'')]) (Some ''Id = @Id'')
          (Some [(''Id'', JNum 9)]) (example_server example_catalog 1) new_database) = Inr 1"
proof -
  let ?d = "[(''Id'', JNum 7), (''Name'', JStr ''x'')]" and ?wp = "[(''Id'', JNum 9)]"
  let ?srv = "example_server example_catalog 1"
  have k: "''Id'' \<in> fst ` set ?d"
    by simp
  have v: "param ?wp ''Id'' = Some (JNum 9)" and old: "param ?d ''Id'' = Some (JNum 7)"
    by (simp_all add: param_def)
  note collision = update_name_collision [OF k v, of "Some ''Client''" None "Some ''Id = @Id''" ?srv new_database]
  have accepted: "run_text ?srv (update_query (Some ''Client'') (default_to ''dbo'' None) ?d (Some ''Id = @Id''))
      (spread ?d ?wp) = Inr \<lparr>recordset = None, rowsAffected = [1]\<rparr>"
    by code_simp
  from collision
  have "fst (updateData (Some ''Client'') None (Some ?d) (Some ''Id = @Id'') (Some ?wp) ?srv new_database) =
      (case run_text ?srv (update_query (Some ''Client'') (default_to ''dbo'' None) ?d (Some ''Id = @Id''))
              (spread ?d ?wp) of
         Inl e \<Rightarrow> Inl e
       | Inr res \<Rightarrow> Inr 1)"
    using healthy_example [of example_catalog 1] by blast
  with accepted
  have "fst (updateData (Some ''Client'') None (Some ?d) (Some ''Id = @Id'') (Some ?wp) ?srv new_database) = Inr 1"
    by simp
  moreover have "update_query (Some ''Client'') ''dbo'' ?d (Some ''Id = @Id'')
      = ''UPDATE [dbo].[Client] SET [Id] = @Id, [Name] = @Name WHERE Id = @Id''"
    by (simp add: update_query_def)
  ultimately show ?thesis
    using k v old collision by blast
qed

subsection \<open>The life of a pool\<close>

lemma connect_reuses_pool: "pool db = Some p \<Longrightarrow> connect srv db = (Inr (), db)"
  by (simp add: connect_def)

lemma connect_twice: "fst (connect srv db) = Inr () \<Longrightarrow> connect srv' (snd (connect srv db)) = (Inr (), snd (connect srv db))"
  by (auto simp: connect_def Let_def split: option.splits)

lemma disconnect_twice: "disconnect (snd (disconnect db)) = (Inr (), snd (disconnect db))"
  by (auto simp: disconnect_def split: option.splits)

lemma disconnect_without_pool: "pool db = None \<Longrightarrow> disconnect db = (Inr (), db)"
  by (simp add: disconnect_def)

text \<open>
  C5. After a failed first attempt the field \<open>pool\<close> holds the pool that failed to
  connect. The next \<open>connect()\<close> finds the field set and returns at once: it constructs no
  pool and makes no attempt, even against a server that would accept, and the next
  request goes to the unconnected pool and is refused by the driver.
\<close>

theorem connect_keeps_failed_pool:
  assumes "pool db = None" and "connect_failure srv = Some e"
  shows "fst (connect srv db) = Inl e \<and>
         pool (snd (connect srv db)) = Some \<lparr>handle = pools_created db, connected = False\<rparr> \<and>
         connect srv' (snd (connect srv db)) = (Inr (), snd (connect srv db)) \<and>
         fst (executeQuery query parameters srv' (snd (connect srv db))) = Inl (not_open_error srv')"
  using assms by (simp add: connect_def executeQuery_def Let_def)

theorem connect_keeps_failed_pool_witness:
  "pool new_database = None \<and> connect_failure unreachable_server = Some login_failed \<and>
   connect_failure (example_server example_catalog 0) = None \<and>
   fst (connect unreachable_server new_database) = Inl login_failed \<and>
   connect (example_server example_catalog 0) (snd (connect unreachable_server new_database))
     = (Inr (), \<lparr>pool = Some \<lparr>handle = 0, connected = False\<rparr>, pools_created = 1, calls = [Ev_connect 0]\<rparr>) \<and>
   fst (executeQuery Q_getTables None (example_server example_catalog 0)
          (snd (connect unreachable_server new_database)))
     = Inl (Error ''Connection not yet open.'')"
proof -
  have p: "pool new_database = None"
    by (simp add: new_database_def)
  have f: "connect_failure unreachable_server = Some login_failed"
    by (simp add: unreachable_server_def)
  have ok: "connect_failure (example_server example_catalog 0) = None"
    by (simp add: example_server_def)
  have state: "snd (connect unreachable_server new_database)
      = \<lparr>pool = Some \<lparr>handle = 0, connected = False\<rparr>, pools_created = 1, calls = [Ev_connect 0]\<rparr>"
    by (simp add: connect_def new_database_def f Let_def)
  have refusal: "not_open_error (example_server example_catalog 0) = Error ''Connection not yet open.''"
    by (simp add: example_server_def)
  from connect_keeps_failed_pool [OF p f, of "example_server example_catalog 0" Q_getTables None]
    p f ok state refusal
  show ?thesis
    by simp
qed

subsection \<open>Catalog listings\<close>

lemma healthy_query:
  "healthy srv db \<Longrightarrow>
     fst (executeQuery query parameters srv db) =
       (case answer srv query (request_inputs parameters) of
          Inl e \<Rightarrow> Inl e | Inr res \<Rightarrow> Inr (recordset res))"
  by (simp add: executeQuery_healthy server_query_def healthy_def)

lemma getTables_healthy:
  "healthy srv db \<Longrightarrow> fst (getTables srv db) = Inr (Some (select_tables (cat srv)))"
  by (simp add: getTables_def healthy_query rows_result_def)

lemma getViews_healthy:
  "healthy srv db \<Longrightarrow> fst (getViews srv db) = Inr (Some (select_views (cat srv)))"
  by (simp add: getViews_def healthy_query rows_result_def)

lemma getStoredProcedures_healthy:
  "healthy srv db \<Longrightarrow> fst (getStoredProcedures srv db) = Inr (Some (select_procedures (cat srv)))"
  by (simp add: getStoredProcedures_def healthy_query rows_result_def)

lemma getTriggers_healthy:
  "healthy srv db \<Longrightarrow> fst (getTriggers srv db) = Inl (invalid_column srv ''schema_id'')"
  by (simp add: getTriggers_def healthy_query)

lemma getTableSchema_healthy:
  "healthy srv db \<Longrightarrow>
     fst (getTableSchema (Some table) schema srv db) =
       Inr (Some (map column_row
         (sort_key col_ordinal_position (columns_of (cat srv) (default_to ''dbo'' schema) table))))"
  by (simp add: getTableSchema_def healthy_query rows_result_def select_columns_def columns_of_def
      param_def)

lemma sorted_pairs_of_strings:
  "sorted (map (\<lambda>x. (f x, g x)) xs) \<Longrightarrow> sorted (map (\<lambda>x. (Some (f x), Some (g x))) xs)"
  for f g :: "'a \<Rightarrow> string"
  unfolding sorted_map
  by (erule sorted_wrt_mono_rel [rotated]) (simp add: less_eq_prod_def)

lemma select_tables_sorted:
  "sorted (map (schema_and_name ''table_schema'' ''table_name'') (select_tables c))"
proof -
  have "map (schema_and_name ''table_schema'' ''table_name'') (select_tables c) =
      map (\<lambda>t. (Some (tbl_schema t), Some (tbl_name t)))
        (sort_key (\<lambda>t. (tbl_schema t, tbl_name t)) (filter (\<lambda>t. tbl_type t = ''BASE TABLE'') (TABLES c)))"
    by (simp add: select_tables_def schema_and_name_def string_field_def table_row_def comp_def)
  then show ?thesis
    by (simp only: sorted_pairs_of_strings sorted_sort_key)
qed

lemma select_views_sorted:
  "sorted (map (schema_and_name ''table_schema'' ''table_name'') (select_views c))"
proof -
  have "map (schema_and_name ''table_schema'' ''table_name'') (select_views c) =
      map (\<lambda>v. (Some (vw_schema v), Some (vw_name v)))
        (sort_key (\<lambda>v. (vw_schema v, vw_name v)) (VIEWS c))"
    by (simp add: select_views_def schema_and_name_def string_field_def view_row_def comp_def)
  then show ?thesis
    by (simp only: sorted_pairs_of_strings sorted_sort_key)
qed

lemma select_procedures_sorted:
  "sorted (map (schema_and_name ''routine_schema'' ''routine_name'') (select_procedures c))"
proof -
  have "map (schema_and_name ''routine_schema'' ''routine_name'') (select_procedures c) =
      map (\<lambda>r. (Some (rtn_schema r), Some (rtn_name r)))
        (sort_key (\<lambda>r. (rtn_schema r, rtn_name r)) (filter (\<lambda>r. rtn_type r = ''PROCEDURE'') (ROUTINES c)))"
    by (simp add: select_procedures_def schema_and_name_def string_field_def routine_row_def comp_def)
  then show ?thesis
    by (simp only: sorted_pairs_of_strings sorted_sort_key)
qed

lemma mset_select_tables:
  "mset (select_tables c) = image_mset table_row (mset (filter (\<lambda>t. tbl_type t = ''BASE TABLE'') (TABLES c)))"
  by (simp add: select_tables_def)

lemma mset_select_views: "mset (select_views c) = image_mset view_row (mset (VIEWS c))"
  by (simp add: select_views_def)

lemma mset_select_procedures:
  "mset (select_procedures c) =
     image_mset routine_row (mset (filter (\<lambda>r. rtn_type r = ''PROCEDURE'') (ROUTINES c)))"
  by (simp add: select_procedures_def)

text \<open>
  C6. On a healthy connection \<open>getTables\<close>, \<open>getViews\<close> and \<open>getStoredProcedures\<close> return
  exactly the rows of the catalog's base tables, views and procedures, in ascending order
  of the pair (schema, name), and the empty sequence when there is no such object.
  \<open>getTriggers\<close> returns no sequence at all: the server refuses its statement for the
  column \<open>schema_id\<close>, with triggers in the catalog or without, and the method raises.
\<close>

theorem listings_sorted:
  assumes "healthy srv db"
  shows "(\<exists>rows. fst (getTables srv db) = Inr (Some rows) \<and>
            mset rows = image_mset table_row
              (mset (filter (\<lambda>t. tbl_type t = ''BASE TABLE'') (TABLES (cat srv)))) \<and>
            sorted (map (schema_and_name ''table_schema'' ''table_name'') rows)) \<and>
         (\<exists>rows. fst (getViews srv db) = Inr (Some rows) \<and>
            mset rows = image_mset view_row (mset (VIEWS (cat srv))) \<and>
            sorted (map (schema_and_name ''table_schema'' ''table_name'') rows)) \<and>
         (\<exists>rows. fst (getStoredProcedures srv db) = Inr (Some rows) \<and>
            mset rows = image_mset routine_row
              (mset (filter (\<lambda>r. rtn_type r = ''PROCEDURE'') (ROUTINES (cat srv)))) \<and>
            sorted (map (schema_and_name ''routine_schema'' ''routine_name'') rows)) \<and>
         (filter (\<lambda>t. tbl_type t = ''BASE TABLE'') (TABLES (cat srv)) = []
            \<longrightarrow> fst (getTables srv db) = Inr (Some [])) \<and>
         (VIEWS (cat srv) = [] \<longrightarrow> fst (getViews srv db) = Inr (Some [])) \<and>
         (filter (\<lambda>r. rtn_type r = ''PROCEDURE'') (ROUTINES (cat srv)) = []
            \<longrightarrow> fst (getStoredProcedures srv db) = Inr (Some [])) \<and>
         fst (getTriggers srv db) = Inl (invalid_column srv ''schema_id'')"
proof (intro conjI impI)
  show "\<exists>rows. fst (getTables srv db) = Inr (Some rows) \<and>
            mset rows = image_mset table_row
              (mset (filter (\<lambda>t. tbl_type t = ''BASE TABLE'') (TABLES (cat srv)))) \<and>
            sorted (map (schema_and_name ''table_schema'' ''table_name'') rows)"
    using getTables_healthy [OF assms] mset_select_tables select_tables_sorted by blast
  show "\<exists>rows. fst (getViews srv db) = Inr (Some rows) \<and>
            mset rows = image_mset view_row (mset (VIEWS (cat srv))) \<and>
            sorted (map (schema_and_name ''table_schema'' ''table_name'') rows)"
    using getViews_healthy [OF assms] mset_select_views select_views_sorted by blast
  show "\<exists>rows. fst (getStoredProcedures srv db) = Inr (Some rows) \<and>
            mset rows = image_mset routine_row
              (mset (filter (\<lambda>r. rtn_type r = ''PROCEDURE'') (ROUTINES (cat srv)))) \<and>
            sorted (map (schema_and_name ''routine_schema'' ''routine_name'') rows)"
    using getStoredProcedures_healthy [OF assms] mset_select_procedures select_procedures_sorted by blast
  show "fst (getTriggers srv db) = Inl (invalid_column srv ''schema_id'')"
    by (rule getTriggers_healthy [OF assms])
next
  assume "filter (\<lambda>t. tbl_type t = ''BASE TABLE'') (TABLES (cat srv)) = []"
  then show "fst (getTables srv db) = Inr (Some [])"
    by (simp add: getTables_healthy [OF assms] select_tables_def)
next
  assume "VIEWS (cat srv) = []"
  then show "fst (getViews srv db) = Inr (Some [])"
    by (simp add: getViews_healthy [OF assms] select_views_def)
next
  assume "filter (\<lambda>r. rtn_type r = ''PROCEDURE'') (ROUTINES (cat srv)) = []"
  then show "fst (getStoredProcedures srv db) = Inr (Some [])"
    by (simp add: getStoredProcedures_healthy [OF assms] select_procedures_def)
qed

theorem listings_sorted_witness:
  "healthy (example_server example_catalog 0) new_database \<and>
   fst (getTables (example_server example_catalog 0) new_database) =
     Inr (Some [[(''table_schema'', JStr ''App''), (''table_name'', JStr ''Client'')],
                [(''table_schema'', JStr ''App''), (''table_name'', JStr ''User'')]]) \<and>
   sorted (map (schema_and_name ''table_schema'' ''table_name'')
     [[(''table_schema'', JStr ''App''), (''table_name'', JStr ''Client'')],
      [(''table_schema'', JStr ''App''), (''table_name'', JStr ''User'')]]) \<and>
   healthy (example_server empty_catalog 0) new_database \<and>
   triggers empty_catalog = [] \<and>
   fst (getTables (example_server empty_catalog 0) new_database) = Inr (Some []) \<and>
   fst (getViews (example_server empty_catalog 0) new_database) = Inr (Some []) \<and>
   fst (getStoredProcedures (example_server empty_catalog 0) new_database) = Inr (Some []) \<and>
   fst (getTriggers (example_server empty_catalog 0) new_database) =
     Inl (Error (''Invalid column name '' @ [CHR 0x27] @ ''schema_id'' @ [CHR 0x27] @ ''.''))"
proof -
  let ?rows = "[[(''table_schema'', JStr ''App''), (''table_name'', JStr ''Client'')],
                [(''table_schema'', JStr ''App''), (''table_name'', JStr ''User'')]]"
  note full = listings_sorted [OF healthy_example [of example_catalog 0]]
  note none = listings_sorted [OF healthy_example [of empty_catalog 0]]
  have tables: "fst (getTables (example_server example_catalog 0) new_database) = Inr (Some ?rows)"
    by code_simp
  from full obtain rows where "fst (getTables (example_server example_catalog 0) new_database) = Inr (Some rows)"
    and "sorted (map (schema_and_name ''table_schema'' ''table_name'') rows)"
    by blast
  with tables have sorted: "sorted (map (schema_and_name ''table_schema'' ''table_name'') ?rows)"
    by simp
  have "filter (\<lambda>t. tbl_type t = ''BASE TABLE'') (TABLES (cat (example_server empty_catalog 0))) = []"
    and "VIEWS (cat (example_server empty_catalog 0)) = []"
    and "filter (\<lambda>r. rtn_type r = ''PROCEDURE'') (ROUTINES (cat (example_server empty_catalog 0))) = []"
    by (simp_all add: example_server_def empty_catalog_def)
  with none have "fst (getTables (example_server empty_catalog 0) new_database) = Inr (Some [])"
    and "fst (getViews (example_server empty_catalog 0) new_database) = Inr (Some [])"
    and "fst (getStoredProcedures (example_server empty_catalog 0) new_database) = Inr (Some [])"
    by blast+
  moreover from none have "fst (getTriggers (example_server empty_catalog 0) new_database) =
      Inl (invalid_column (example_server empty_catalog 0) ''schema_id'')"
    by blast
  then have "fst (getTriggers (example_server empty_catalog 0) new_database) =
      Inl (Error (''Invalid column name '' @ [CHR 0x27] @ ''schema_id'' @ [CHR 0x27] @ ''.''))"
    by (simp add: example_server_def)
  moreover have "triggers empty_catalog = []"
    by (simp add: empty_catalog_def)
  ultimately show ?thesis
    using tables sorted healthy_example by blast
qed

subsection \<open>Column descriptors\<close>

text \<open>
  C7. On a healthy connection \<open>getTableSchema\<close> returns one descriptor for each column that
  the catalog holds for the table (the same columns, each once), in ascending ordinal
  position; for a table without columns in the catalog, such as one that does not exist,
  it returns the empty sequence and raises nothing.
\<close>

theorem getTableSchema_columns:
  assumes "healthy srv db"
  shows "(\<exists>cs. fst (getTableSchema (Some table) schema srv db) = Inr (Some (map column_row cs)) \<and>
            mset cs = mset (columns_of (cat srv) (default_to ''dbo'' schema) table) \<and>
            length cs = length (columns_of (cat srv) (default_to ''dbo'' schema) table) \<and>
            sorted (map col_ordinal_position cs)) \<and>
         (columns_of (cat srv) (default_to ''dbo'' schema) table = []
            \<longrightarrow> fst (getTableSchema (Some table) schema srv db) = Inr (Some []))"
proof (intro conjI impI)
  let ?cs = "sort_key col_ordinal_position (columns_of (cat srv) (default_to ''dbo'' schema) table)"
  have "fst (getTableSchema (Some table) schema srv db) = Inr (Some (map column_row ?cs))"
    by (rule getTableSchema_healthy [OF assms])
  moreover have "mset ?cs = mset (columns_of (cat srv) (default_to ''dbo'' schema) table)"
    by simp
  moreover have "length ?cs = length (columns_of (cat srv) (default_to ''dbo'' schema) table)"
    by simp
  moreover have "sorted (map col_ordinal_position ?cs)"
    by (rule sorted_sort_key)
  ultimately show "\<exists>cs. fst (getTableSchema (Some table) schema srv db) = Inr (Some (map column_row cs)) \<and>
            mset cs = mset (columns_of (cat srv) (default_to ''dbo'' schema) table) \<and>
            length cs = length (columns_of (cat srv) (default_to ''dbo'' schema) table) \<and>
            sorted (map col_ordinal_position cs)"
    by blast
next
  assume "columns_of (cat srv) (default_to ''dbo'' schema) table = []"
  then show "fst (getTableSchema (Some table) schema srv db) = Inr (Some [])"
    by (simp add: getTableSchema_healthy [OF assms])
qed

theorem getTableSchema_columns_witness:
  "healthy (example_server example_catalog 0) new_database \<and>
   map col_name (columns_of example_catalog ''App'' ''User'') = [''Name'', ''Id''] \<and>
   fst (getTableSchema (Some ''User'') (Some ''App'') (example_server example_catalog 0) new_database) =
     Inr (Some
       [[(''column_name'', JStr ''Id''), (''data_type'', JStr ''int''), (''is_nullable'', JStr ''NO''),
         (''column_default'', JNull), (''character_maximum_length'', JNull)],
        [(''column_name'', JStr ''Name''), (''data_type'', JStr ''nvarchar''), (''is_nullable'', JStr ''YES''),
         (''column_default'', JNull), (''character_maximum_length'', JNum 50)]]) \<and>
   columns_of example_catalog ''dbo'' ''Missing'' = [] \<and>
   fst (getTableSchema (Some ''Missing'') None (example_server example_catalog 0) new_database) = Inr (Some [])"
proof -
  let ?srv = "example_server example_catalog 0"
  have c: "cat ?srv = example_catalog"
    by (simp add: example_server_def)
  have names: "map col_name (columns_of example_catalog ''App'' ''User'') = [''Name'', ''Id'']"
    by code_simp
  have missing: "columns_of (cat ?srv) (default_to ''dbo'' None) ''Missing'' = []"
    unfolding c by code_simp
  have empty: "fst (getTableSchema (Some ''Missing'') None ?srv new_database) = Inr (Some [])"
    using getTableSchema_columns [OF healthy_example, THEN conjunct2, rule_format, OF missing] .
  have rows: "fst (getTableSchema (Some ''User'') (Some ''App'') ?srv new_database) =
     Inr (Some
       [[(''column_name'', JStr ''Id''), (''data_type'', JStr ''int''), (''is_nullable'', JStr ''NO''),
         (''column_default'', JNull), (''character_maximum_length'', JNull)],
        [(''column_name'', JStr ''Name''), (''data_type'', JStr ''nvarchar''), (''is_nullable'', JStr ''YES''),
         (''column_default'', JNull), (''character_maximum_length'', JNum 50)]])"
    by code_simp
  from missing have "columns_of example_catalog ''dbo'' ''Missing'' = []"
    by (simp add: c)
  with names rows empty healthy_example show ?thesis
    by blast
qed

subsection \<open>The trigger listing\<close>

lemma mapped_raised: "fst x = Inl e \<Longrightarrow> fst (mapped f x) = Inl e"
  by (cases x) (simp add: mapped_def)

lemma and_then_raised: "fst x = Inl e \<Longrightarrow> fst (and_then listing env x) = Inl e"
  by (cases x) (simp add: and_then_def)

lemma and_then_raises:
  "\<forall>w. \<exists>e. fst (listing env w) = Inl e \<Longrightarrow> \<exists>e. fst (and_then listing env x) = Inl e"
proof (cases x)
  case (Pair r w)
  assume always: "\<forall>w. \<exists>e. fst (listing env w) = Inl e"
  show ?thesis
  proof (cases r)
    case (Inl e)
    with Pair show ?thesis
      by (simp add: and_then_def)
  next
    case (Inr resources)
    from always obtain e where "fst (listing env w) = Inl e"
      by blast
    with Pair Inr show ?thesis
      by (cases "listing env w") (simp add: and_then_def)
  qed
qed

lemma getTriggers_raises: "\<exists>e. fst (getTriggers srv db) = Inl e"
  by (auto simp: getTriggers_def executeQuery_def connect_def server_query_def Let_def
      split: option.splits)

lemma listTriggers_raises: "\<exists>e. fst (TriggersResource_listTriggers database env w) = Inl e"
proof -
  obtain e where "fst (on_db (Some database) getTriggers env w) = Inl e"
    using getTriggers_raises by (auto simp: on_db_fst)
  then show ?thesis
    by (auto simp: TriggersResource_listTriggers_def mapped_raised)
qed

text \<open>
  C10. \<open>getTriggers\<close> never returns a listing, of enabled triggers or of any: whatever the
  server and the state of the connection it raises, and on a healthy connection the error
  is the server's refusal of the column \<open>schema_id\<close>. So \<open>listTriggers\<close> raises, the
  \<open>ListResources\<close> handler, which calls it, raises, and the tool \<open>getTriggers\<close> answers with a
  failure.
\<close>

theorem getTriggers_refused:
  "(\<exists>e. fst (getTriggers srv db) = Inl e) \<and>
   (healthy srv db \<longrightarrow> fst (getTriggers srv db) = Inl (invalid_column srv ''schema_id'')) \<and>
   (\<exists>e. fst (TriggersResource_listTriggers database env w) = Inl e) \<and>
   (\<exists>e. fst (listResources env w) = Inl e) \<and>
   (\<exists>m. fst (SchemaTool_getTriggers (Some a) env w) = Inr (Failure m))"
proof (intro conjI impI)
  show "\<exists>e. fst (getTriggers srv db) = Inl e"
    by (rule getTriggers_raises)
  show "\<exists>e. fst (TriggersResource_listTriggers database env w) = Inl e"
    by (rule listTriggers_raises)
  have "\<exists>e. fst (and_then (TriggersResource_listTriggers ''master'') env x) = Inl e" for x
    by (rule and_then_raises) (simp add: listTriggers_raises)
  then obtain e where "fst (and_then (TriggersResource_listTriggers ''master'') env
      (and_then (ProceduresResource_listProcedures ''datamgmt'') env
         (and_then (ProceduresResource_listProcedures ''master'') env
            (and_then (TablesResource_listTables ''datamgmt'') env
               (and_then (TablesResource_listTables ''master'') env (Inr [], w)))))) = Inl e"
    by blast
  then have "fst (listResources env w) = Inl e"
    by (simp add: listResources_def and_then_raised)
  then show "\<exists>e. fst (listResources env w) = Inl e"
    by blast
  obtain e' where "fst (on_db (arg_database a) getTriggers env w) = Inl e'"
    using getTriggers_raises by (auto simp: on_db_fst)
  then show "\<exists>m. fst (SchemaTool_getTriggers (Some a) env w) = Inr (Failure m)"
    by (cases "on_db (arg_database a) getTriggers env w")
      (simp add: SchemaTool_getTriggers_def listing_reply_def caught_def)
next
  assume "healthy srv db"
  then show "fst (getTriggers srv db) = Inl (invalid_column srv ''schema_id'')"
    by (rule getTriggers_healthy)
qed

theorem getTriggers_refused_witness:
  "healthy (example_server example_catalog 0) new_database \<and>
   map (\<lambda>t. (trg_name t, trg_is_disabled t)) (triggers example_catalog) =
     [(''trg_b'', 0), (''trg_c'', 1), (''trg_a'', 0)] \<and>
   fst (getTriggers (example_server example_catalog 0) new_database) =
     Inl (Error (''Invalid column name '' @ [CHR 0x27] @ ''schema_id'' @ [CHR 0x27] @ ''.''))"
proof -
  have "fst (getTriggers (example_server example_catalog 0) new_database) =
      Inl (invalid_column (example_server example_catalog 0) ''schema_id'')"
    using getTriggers_refused [THEN conjunct2, THEN conjunct1, rule_format, OF healthy_example] .
  then have "fst (getTriggers (example_server example_catalog 0) new_database) =
      Inl (Error (''Invalid column name '' @ [CHR 0x27] @ ''schema_id'' @ [CHR 0x27] @ ''.''))"
    by (simp add: example_server_def)
  moreover have "map (\<lambda>t. (trg_name t, trg_is_disabled t)) (triggers example_catalog) =
     [(''trg_b'', 0), (''trg_c'', 1), (''trg_a'', 0)]"
    by (simp add: example_catalog_def)
  ultimately show ?thesis
    using healthy_example by blast
qed

subsection \<open>Resource URIs\<close>

lemma split_nonempty: "split sep s \<noteq> []"
  by (induction s) (auto split: list.splits)

lemma split_segment: "sep \<notin> set p \<Longrightarrow> split sep (p @ sep # rest) = p # split sep rest"
  by (induction p) (auto split: list.splits)

lemma split_listed_uri:
  assumes "CHR ''/'' \<notin> set database" and "CHR ''/'' \<notin> set kind"
  shows "split CHR ''/'' (''mcp://ssms/'' @ database @ ''/'' @ kind @ ''/'' @ ident) =
           [''mcp:'', [], ''ssms'', database, kind] @ split CHR ''/'' ident"
proof -
  let ?s = "split CHR ''/''"
  have f1: "?s (''mcp:'' @ CHR ''/'' # rest) = ''mcp:'' # ?s rest" for rest
    by (rule split_segment) simp
  have f2: "?s (CHR ''/'' # rest) = [] # ?s rest" for rest
    by simp
  have f3: "?s (''ssms'' @ CHR ''/'' # rest) = ''ssms'' # ?s rest" for rest
    by (rule split_segment) simp
  have f4: "?s (database @ CHR ''/'' # rest) = database # ?s rest" for rest
    by (rule split_segment) fact
  have f5: "?s (kind @ CHR ''/'' # rest) = kind # ?s rest" for rest
    by (rule split_segment) fact
  have "''mcp://ssms/'' @ database @ ''/'' @ kind @ ''/'' @ ident =
      ''mcp:'' @ CHR ''/'' # CHR ''/'' # ''ssms'' @ CHR ''/'' # database @ CHR ''/'' # kind @ CHR ''/'' # ident"
    by simp
  then show ?thesis
    by (simp only: f1 f2 f3 f4 f5) simp
qed

lemma listed_uri_parts:
  assumes "CHR ''/'' \<notin> set database" and "CHR ''/'' \<notin> set kind"
  shows "uri_database (''mcp://ssms/'' @ database @ ''/'' @ kind @ ''/'' @ ident) = Some ''ssms''"
    and "uri_object (''mcp://ssms/'' @ database @ ''/'' @ kind @ ''/'' @ ident) = Some kind"
  unfolding uri_database_def uri_object_def split_listed_uri [OF assms]
  by (simp_all add: at_index_def)

text \<open>
  C4. Every URI that a listing builds has the form \<open>mcp://ssms/<database>/<kind>/<identifier>\<close>.
  Split at \<open>/\<close>, its element 2 is \<open>ssms\<close> and its element 4 is the kind, so the reader
  takes \<open>ssms\<close> for the target, which selects the data-management database, and the
  kind for the object name. Reading the URI listed for the master table \<open>App.User\<close> sends
  nothing to the master database and asks the data-management database for a table
  named \<open>tables\<close>.
\<close>

theorem listed_uris_misread:
  "uri_database (res_uri (table_resource ''master'' r)) = Some ''ssms'' \<and>
   uri_object (res_uri (table_resource ''master'' r)) = Some ''tables'' \<and>
   uri_database (res_uri (view_resource ''master'' r)) = Some ''ssms'' \<and>
   uri_object (res_uri (view_resource ''master'' r)) = Some ''views'' \<and>
   uri_database (res_uri (procedure_resource ''master'' r)) = Some ''ssms'' \<and>
   uri_object (res_uri (procedure_resource ''master'' r)) = Some ''procedures'' \<and>
   uri_database (res_uri (trigger_resource ''master'' r)) = Some ''ssms'' \<and>
   uri_object (res_uri (trigger_resource ''master'' r)) = Some ''triggers'' \<and>
   map res_uri (case fst (TablesResource_listTables ''master'' example_environment new_world) of
                  Inr listed \<Rightarrow> listed | Inl e \<Rightarrow> [])
     = [''mcp://ssms/master/tables/App.Client'', ''mcp://ssms/master/tables/App.User''] \<and>
   requests (masterDb (snd (readResource ''mcp://ssms/master/tables/App.User'' example_environment new_world)))
     = [] \<and>
   requests (dataMgmtDb (snd (readResource ''mcp://ssms/master/tables/App.User'' example_environment new_world)))
     = [(Q_getTableSchema, [(''tableName'', JStr ''tables''), (''schema'', JStr ''dbo'')]),
        (Q_Text ''SELECT * FROM [dbo].[tables] ORDER BY (SELECT NULL) OFFSET @offset ROWS FETCH NEXT @limit ROWS ONLY'',
         [(''limit'', JNum 10), (''offset'', JNum 0)])]"
proof (intro conjI)
  have m: "CHR ''/'' \<notin> set ''master''"
    and k: "CHR ''/'' \<notin> set ''tables''" "CHR ''/'' \<notin> set ''views''"
      "CHR ''/'' \<notin> set ''procedures''" "CHR ''/'' \<notin> set ''triggers''"
    by simp_all
  show "uri_database (res_uri (table_resource ''master'' r)) = Some ''ssms''"
    and "uri_object (res_uri (table_resource ''master'' r)) = Some ''tables''"
    using listed_uri_parts [OF m k(1)] by (simp_all add: table_resource_def)
  show "uri_database (res_uri (view_resource ''master'' r)) = Some ''ssms''"
    and "uri_object (res_uri (view_resource ''master'' r)) = Some ''views''"
    using listed_uri_parts [OF m k(2)] by (simp_all add: view_resource_def)
  show "uri_database (res_uri (procedure_resource ''master'' r)) = Some ''ssms''"
    and "uri_object (res_uri (procedure_resource ''master'' r)) = Some ''procedures''"
    using listed_uri_parts [OF m k(3)] by (simp_all add: procedure_resource_def)
  show "uri_database (res_uri (trigger_resource ''master'' r)) = Some ''ssms''"
    and "uri_object (res_uri (trigger_resource ''master'' r)) = Some ''triggers''"
    using listed_uri_parts [OF m k(4)] by (simp_all add: trigger_resource_def)
  show "map res_uri (case fst (TablesResource_listTables ''master'' example_environment new_world) of
                  Inr listed \<Rightarrow> listed | Inl e \<Rightarrow> [])
     = [''mcp://ssms/master/tables/App.Client'', ''mcp://ssms/master/tables/App.User'']"
    by code_simp
  show "requests (masterDb (snd (readResource ''mcp://ssms/master/tables/App.User'' example_environment new_world)))
     = []"
    by code_simp
  show "requests (dataMgmtDb (snd (readResource ''mcp://ssms/master/tables/App.User'' example_environment new_world)))
     = [(Q_getTableSchema, [(''tableName'', JStr ''tables''), (''schema'', JStr ''dbo'')]),
        (Q_Text ''SELECT * FROM [dbo].[tables] ORDER BY (SELECT NULL) OFFSET @offset ROWS FETCH NEXT @limit ROWS ONLY'',
         [(''limit'', JNum 10), (''offset'', JNum 0)])]"
    by code_simp
qed

subsection \<open>The front-end boundary\<close>

































end
